theory Spec2Isabelle
  imports Main "HOL-Library.Sublist"
begin

section \<open>JavaScript primitives used by the scripts\<close>

text \<open>
  BigInt division (\<^verbatim>\<open>a / b\<close> on two BigInts) truncates towards zero and raises a
  RangeError on a zero divisor.  HOL's \<open>div\<close> on \<open>int\<close> rounds towards minus infinity,
  so the truncation is written out.
\<close>

definition bigint_div :: "int \<Rightarrow> int \<Rightarrow> int option" where
  "bigint_div a b =
     (if b = 0 then None else Some (sgn a * sgn b * (\<bar>a\<bar> div \<bar>b\<bar>)))"

text \<open>
  \<^verbatim>\<open>const gasLimit = deploymentGas * 120n / 100n;\<close>  (deploy, "Add 20% buffer to gas limit").
  The divisor is the literal \<open>100n\<close>, so the RangeError branch is dead; it is kept
  in the model as \<open>None\<close>.
\<close>

definition gasLimit :: "int \<Rightarrow> int option" where
  "gasLimit deploymentGas = bigint_div (deploymentGas * 120) 100"

subsection \<open>Strings\<close>

text \<open>
  \<^verbatim>\<open>hay.includes(needle)\<close>: does \<open>needle\<close> occur in \<open>hay\<close> as a contiguous run.
  \<^verbatim>\<open>s.slice(n)\<close> with a non-negative literal \<open>n\<close> drops the first \<open>n\<close> code units.
  All strings the scripts compare are ASCII (hex digits, status words, URLs).
\<close>

fun str_includes :: "string \<Rightarrow> string \<Rightarrow> bool" where
  "str_includes [] needle = (needle = [])"
| "str_includes (c # cs) needle = (prefix needle (c # cs) \<or> str_includes cs needle)"

definition str_slice :: "nat \<Rightarrow> string \<Rightarrow> string" where
  "str_slice n s = drop n s"

subsection \<open>Values, truthiness and property lookup\<close>

text \<open>
  The values that flow through the lookup tables of the scripts: \<open>undefined\<close>, a
  string, or something inherited from \<^verbatim>\<open>Object.prototype\<close>.  An object literal
  \<^verbatim>\<open>{ 'MIT': '3', ... }\<close> has \<^verbatim>\<open>Object.prototype\<close> as its prototype, so
  \<^verbatim>\<open>obj[key]\<close> first looks at the literal's own properties and then at the
  prototype's: \<^verbatim>\<open>obj['constructor']\<close> is the function \<^verbatim>\<open>Object\<close>, not
  \<open>undefined\<close>.
\<close>

datatype jsval = JUndefined | JStr string | JBuiltin string

definition object_prototype_keys :: "string list" where
  "object_prototype_keys =
     [''constructor'', ''__defineGetter__'', ''__defineSetter__'', ''hasOwnProperty'',
      ''__lookupGetter__'', ''__lookupSetter__'', ''isPrototypeOf'',
      ''propertyIsEnumerable'', ''toString'', ''valueOf'', ''__proto__'',
      ''toLocaleString'']"

definition get_property :: "(string \<times> jsval) list \<Rightarrow> string \<Rightarrow> jsval" where
  "get_property own k =
     (case map_of own k of
        Some v \<Rightarrow> v
      | None \<Rightarrow> if k \<in> set object_prototype_keys then JBuiltin k else JUndefined)"

fun truthy :: "jsval \<Rightarrow> bool" where
  "truthy JUndefined = False"
| "truthy (JStr s) = (s \<noteq> [])"
| "truthy (JBuiltin k) = True"

definition js_or :: "jsval \<Rightarrow> jsval \<Rightarrow> jsval" where
  "js_or a b = (if truthy a then a else b)"

text \<open>String conversion, as a template literal or \<^verbatim>\<open>URLSearchParams\<close> performs it.\<close>

fun js_to_string :: "jsval \<Rightarrow> string" where
  "js_to_string JUndefined = ''undefined''"
| "js_to_string (JStr s) = s"
| "js_to_string (JBuiltin k) =
     (if k = ''__proto__'' then ''[object Object]''
      else ''function '' @ (if k = ''constructor'' then ''Object'' else k)
             @ ''() { [native code] }'')"

text \<open>\<^verbatim>\<open>process.env.NAME\<close>: a string when the variable is set, \<open>undefined\<close> otherwise.\<close>

definition env_get :: "(string \<rightharpoonup> string) \<Rightarrow> string \<Rightarrow> jsval" where
  "env_get e k = (case e k of None \<Rightarrow> JUndefined | Some s \<Rightarrow> JStr s)"

subsection \<open>Lookup tables of the verification script\<close>

text \<open>
  \<^verbatim>\<open>
  function getLicenseType(license) {
    const types = { 'MIT': '3', 'GPL-3.0': '9', 'Apache-2.0': '2',
                    'BSD-3-Clause': '8', 'Unlicense': '12' };
    return types[license] || '3'; // Default to MIT
  }
  \<close>
\<close>

definition license_types :: "(string \<times> jsval) list" where
  "license_types =
     [(''MIT'', JStr ''3''), (''GPL-3.0'', JStr ''9''), (''Apache-2.0'', JStr ''2''),
      (''BSD-3-Clause'', JStr ''8''), (''Unlicense'', JStr ''12'')]"

definition getLicenseType :: "string \<Rightarrow> jsval" where
  "getLicenseType lic = js_or (get_property license_types lic) (JStr ''3'')"

subsection \<open>Number to string\<close>

text \<open>
  \<^verbatim>\<open>n.toString()\<close> for a non-negative integer: its decimal digits.  A number
  read from a JSON file is a double, so this is what the script prints for integers below
  \<open>2\<^sup>5\<^sup>3\<close> only; the compile script always writes 200 runs.
\<close>

fun nat_to_string :: "nat \<Rightarrow> string" where
  "nat_to_string n =
     (if n < 10 then [char_of (48 + n)]
      else nat_to_string (n div 10) @ [char_of (48 + n mod 10)])"

section \<open>Files, services and effects\<close>

subsection \<open>Errors\<close>

text \<open>
  Every \<^verbatim>\<open>throw\<close> and every rejected promise of the scripts is a value of \<open>error\<close>,
  tagged by where it arises; \<open>message\<close> is the \<^verbatim>\<open>error.message\<close> the handlers
  print and \<open>code\<close> the \<^verbatim>\<open>error.code\<close> that \<^verbatim>\<open>deploy\<close> inspects.
\<close>

datatype error =
    MkdirFailed string string
  | ReaddirFailed string string
  | ReadFailed string string
  | WriteFailed string string
  | NoRpcUrl string
  | NoPrivateKey
  | NoFunds
  | ClientFailed string string string
  | RangeError string
  | BytecodeMismatch
  | HttpFailed string
  | SubmissionRejected string
  | VerificationFailed string
  | VerificationTimeout
  | TypeError string
  | ReferenceError string
  | CompilerFailed string
  | CompilationErrors
  | ContractNotFound string

fun message :: "error \<Rightarrow> string" where
  "message (MkdirFailed p m) = m"
| "message (ReaddirFailed p m) = m"
| "message (ReadFailed p m) = m"
| "message (WriteFailed p m) = m"
| "message (NoRpcUrl net) = ''No RPC URL configured for network: '' @ net"
| "message NoPrivateKey = ''No private key found in environment variables''"
| "message NoFunds = ''Deployer has no funds. Please fund your account first.''"
| "message (ClientFailed method m c) = m"
| "message (RangeError m) = m"
| "message BytecodeMismatch = ''Deployed bytecode does not match compiled bytecode''"
| "message (HttpFailed m) = m"
| "message (SubmissionRejected m) = ''Verification submission failed: '' @ m"
| "message (VerificationFailed r) = ''Verification failed: '' @ r"
| "message VerificationTimeout = ''Verification timeout''"
| "message (TypeError m) = m"
| "message (ReferenceError m) = m"
| "message (CompilerFailed m) = m"
| "message CompilationErrors = ''Compilation failed due to errors''"
| "message (ContractNotFound n) = ''Contract '' @ n @ '' not found in compilation output''"

text \<open>The message of the TypeError for \<^verbatim>\<open>undefined.key\<close> and \<^verbatim>\<open>undefined[key]\<close>.\<close>

definition reading_undefined :: "string \<Rightarrow> string" where
  "reading_undefined key =
     ''Cannot read properties of undefined (reading '' @ [CHR 0x27] @ key @ [CHR 0x27] @ '')''"

fun code :: "error \<Rightarrow> string option" where
  "code (ClientFailed method m c) = Some c"
| "code e = None"

subsection \<open>Records on disk\<close>

datatype abi_item = AbiItem (item_type: string) (inputs: "(string \<times> string) list")

record artifact =
  art_contractName :: string
  abi :: "abi_item list"
  bytecode :: string
  art_deployedBytecode :: string
  metadata :: string

record compilation_settings =
  set_contractName :: string
  solcVersion :: string
  optimization_enabled :: bool
  optimization_runs :: nat
  pragma :: string
  license :: string
  deployedBytecode :: string
  compilationTimestamp :: nat

datatype vstatus = Submitted | Verified | Failed | Timeout

text \<open>
  The \<^verbatim>\<open>verification\<close> sub-object.  \<^verbatim>\<open>updateVerificationStatus\<close> spreads whatever
  sub-object the file holds (possibly none) and overwrites three keys, so every other key
  may be absent.
\<close>

record verification =
  status :: vstatus
  guid :: "string option"
  submittedAt :: "nat option"
  verifiedAt :: "nat option"
  compilerVersion :: "string option"
  explorerUrl :: "string option"
  failureReason :: "string option"

record deployment =
  contractName :: string
  contractAddress :: string
  deploymentTx :: string
  deployer :: string
  network :: string
  chainId :: int
  timestamp :: nat
  constructorArgs :: "string list"
  constructorTypes :: "string list"
  encodedConstructorArgs :: string
  verification :: "verification option"

subsection \<open>Explorer API\<close>

record payload =
  apikey :: jsval
  api_module :: string
  action :: string
  contractaddress :: string
  sourceCode :: string
  codeformat :: string
  contractname :: string
  compilerversion :: string
  optimizationUsed :: string
  runs :: string
  constructorArguements :: string
  licenseType :: jsval

record api_response =
  resp_status :: string
  resp_message :: string
  resp_result :: string

text \<open>
  What one status-check GET yields: a JSON body with a textual \<^verbatim>\<open>result\<close>, a body
  without one, or a rejected \<^verbatim>\<open>fetch\<close>.
\<close>

datatype http_reply = Result string | NoResult | NetworkError string

subsection \<open>The world\<close>

datatype event =
    Sleep nat
  | HttpGet string
  | HttpPost string payload
  | Rpc string string
  | SendTransaction string int
  | Mkdir string
  | Readdir string
  | ReadFile string
  | WriteFile string
  | ConsoleWarn string
  | ConsoleError string

text \<open>
  The state the scripts act on: the wall clock (milliseconds), the JSON files, the
  Solidity sources and the listing of their directory (\<open>None\<close>: no such directory), the
  replies the explorer will give to the coming status checks, the
  outcome of the coming file-system calls (\<open>Some m\<close>: the call is rejected with message
  \<open>m\<close>; an exhausted list: no fault), and the chronological trace of effects.
  Files are keyed by contract name or by network as the scripts build their paths from
  them.  Informational \<^verbatim>\<open>console.log\<close> lines are not traced; pictographs in
  messages are left out.
\<close>

record world =
  clock :: nat
  artifact_files :: "string \<rightharpoonup> artifact"
  settings_file :: "compilation_settings option"
  deployment_files :: "string \<rightharpoonup> deployment"
  public_deployment_files :: "string \<rightharpoonup> deployment"
  contract_sources :: "string \<rightharpoonup> string"
  contracts_dir :: "string list option"
  poll_script :: "http_reply list"
  fs_faults :: "string option list"
  trace :: "event list"

text \<open>The process: \<^verbatim>\<open>process.argv\<close> and \<^verbatim>\<open>process.env\<close>.\<close>

record process =
  argv :: "string list"
  penv :: "string \<rightharpoonup> string"

text \<open>
  The chain client and the explorer, as the answers they give.  A reply is either
  \<open>Inl (message, code)\<close>, a rejection, or \<open>Inr\<close> a value.
\<close>

type_synonym 'a reply = "(string \<times> string) + 'a"

record services =
  walletAddress :: "string \<Rightarrow> string reply"
  getBalance :: "string \<Rightarrow> string \<Rightarrow> int reply"
  getNetwork :: "string \<Rightarrow> int reply"
  getDeployTransaction :: "artifact \<Rightarrow> string list \<Rightarrow> string reply"
  estimateGas :: "string \<Rightarrow> string \<Rightarrow> string \<Rightarrow> int reply"
  sendDeploy :: "string \<Rightarrow> string \<Rightarrow> string list \<Rightarrow> int \<Rightarrow> (string \<times> string) reply"
  waitForDeployment :: "string \<Rightarrow> string \<Rightarrow> unit reply"
  abiEncode :: "string list \<Rightarrow> string list \<Rightarrow> string reply"
  getCode :: "string \<Rightarrow> string \<Rightarrow> string reply"
  verifysourcecode :: "string \<Rightarrow> payload \<Rightarrow> api_response reply"

subsection \<open>Computations with effects and failure\<close>

type_synonym 'a io = "world \<Rightarrow> (error + 'a) \<times> world"

definition io_bind :: "'a io \<Rightarrow> ('a \<Rightarrow> 'b io) \<Rightarrow> 'b io" where
  "io_bind m f w = (case m w of (Inl e, w') \<Rightarrow> (Inl e, w') | (Inr a, w') \<Rightarrow> f a w')"

definition io_return :: "'a \<Rightarrow> 'a io" where
  "io_return a w = (Inr a, w)"

definition io_throw :: "error \<Rightarrow> 'a io" where
  "io_throw e w = (Inl e, w)"

definition io_effect :: "(world \<Rightarrow> world) \<Rightarrow> unit io" where
  "io_effect f w = (Inr (), f w)"

text \<open>\<^verbatim>\<open>try { m } catch (error) { h(error) }\<close>\<close>

definition io_catch :: "'a io \<Rightarrow> (error \<Rightarrow> 'a io) \<Rightarrow> 'a io" where
  "io_catch m h w = (case m w of (Inl e, w') \<Rightarrow> h e w' | (Inr a, w') \<Rightarrow> (Inr a, w'))"

definition emit :: "event \<Rightarrow> world \<Rightarrow> world" where
  "emit e w = w\<lparr>trace := trace w @ [e]\<rparr>"

definition sleep :: "nat \<Rightarrow> world \<Rightarrow> world" where
  "sleep ms w = emit (Sleep ms) (w\<lparr>clock := clock w + ms\<rparr>)"

definition next_fault :: "world \<Rightarrow> string option \<times> world" where
  "next_fault w =
     (case fs_faults w of [] \<Rightarrow> (None, w) | f # fs \<Rightarrow> (f, w\<lparr>fs_faults := fs\<rparr>))"

text \<open>
  A call of the chain client that goes to the RPC endpoint (traced), and one that is
  computed locally (wallet construction, ABI encoding).
\<close>

definition rpc :: "string \<Rightarrow> string \<Rightarrow> 'a reply \<Rightarrow> 'a io" where
  "rpc method url r w =
     (case r of
        Inl (m, c) \<Rightarrow> (Inl (ClientFailed method m c), emit (Rpc method url) w)
      | Inr a \<Rightarrow> (Inr a, emit (Rpc method url) w))"

definition client :: "string \<Rightarrow> 'a reply \<Rightarrow> 'a io" where
  "client method r w =
     (case r of
        Inl (m, c) \<Rightarrow> (Inl (ClientFailed method m c), w)
      | Inr a \<Rightarrow> (Inr a, w))"

text \<open>
  A transaction sent to the endpoint with the override \<^verbatim>\<open>{ gasLimit }\<close>: the trace
  keeps the limit that went out with it.
\<close>

definition send_transaction :: "string \<Rightarrow> int \<Rightarrow> (int \<Rightarrow> 'a reply) \<Rightarrow> 'a io" where
  "send_transaction url limit request w =
     (case request limit of
        Inl (m, c) \<Rightarrow>
          (Inl (ClientFailed ''sendTransaction'' m c), emit (SendTransaction url limit) w)
      | Inr a \<Rightarrow> (Inr a, emit (SendTransaction url limit) w))"

subsection \<open>File access\<close>

definition deployment_path :: "string \<Rightarrow> string" where
  "deployment_path net = ''deployments/'' @ net @ ''.json''"

definition public_deployment_path :: "string \<Rightarrow> string" where
  "public_deployment_path net = ''public/deployments/'' @ net @ ''.json''"

definition settings_path :: string where
  "settings_path = ''artifacts/compilation-settings.json''"

definition artifact_path :: "string \<Rightarrow> string" where
  "artifact_path cname = ''artifacts/'' @ cname @ ''.json''"

definition source_path :: "string \<Rightarrow> string" where
  "source_path file = ''contracts/'' @ file"

text \<open>
  The message of Node's error for a path that does not exist, with the system call and
  the path in single quotes.  Paths are written relative to the repository root; Node
  prints them resolved against the directory of the script.
\<close>

definition enoent :: "string \<Rightarrow> string \<Rightarrow> string" where
  "enoent syscall p =
     ''ENOENT: no such file or directory, '' @ syscall @ '' '' @ [CHR 0x27] @ p @ [CHR 0x27]"

definition read_file :: "string \<Rightarrow> (world \<Rightarrow> 'a option) \<Rightarrow> 'a io" where
  "read_file p content w =
     (case next_fault (emit (ReadFile p) w) of
        (Some m, w1) \<Rightarrow> (Inl (ReadFailed p m), w1)
      | (None, w1) \<Rightarrow>
          (case content w1 of
             None \<Rightarrow> (Inl (ReadFailed p (enoent ''open'' p)), w1)
           | Some x \<Rightarrow> (Inr x, w1)))"

definition write_file :: "string \<Rightarrow> (world \<Rightarrow> world) \<Rightarrow> unit io" where
  "write_file p store w =
     (case next_fault (emit (WriteFile p) w) of
        (Some m, w1) \<Rightarrow> (Inl (WriteFailed p m), w1)
      | (None, w1) \<Rightarrow> (Inr (), store w1))"

definition mkdir :: "string \<Rightarrow> unit io" where
  "mkdir p w =
     (case next_fault (emit (Mkdir p) w) of
        (Some m, w1) \<Rightarrow> (Inl (MkdirFailed p m), w1)
      | (None, w1) \<Rightarrow> (Inr (), w1))"

definition readSettings :: "compilation_settings io" where
  "readSettings = read_file settings_path settings_file"

definition readDeployment :: "string \<Rightarrow> deployment io" where
  "readDeployment net =
     read_file (deployment_path net) (\<lambda>w. deployment_files w net)"

definition writeDeployment :: "string \<Rightarrow> deployment \<Rightarrow> unit io" where
  "writeDeployment net d =
     write_file (deployment_path net)
       (\<lambda>w. w\<lparr>deployment_files := (deployment_files w)(net \<mapsto> d)\<rparr>)"

definition writePublicDeployment :: "string \<Rightarrow> deployment \<Rightarrow> unit io" where
  "writePublicDeployment net d =
     write_file (public_deployment_path net)
       (\<lambda>w. w\<lparr>public_deployment_files := (public_deployment_files w)(net \<mapsto> d)\<rparr>)"

definition readArtifact :: "string \<Rightarrow> artifact io" where
  "readArtifact cname =
     read_file (artifact_path cname) (\<lambda>w. artifact_files w cname)"

definition readSource :: "string \<Rightarrow> string io" where
  "readSource file = read_file (source_path file) (\<lambda>w. contract_sources w file)"

subsection \<open>Command line\<close>

definition argv_at :: "process \<Rightarrow> nat \<Rightarrow> jsval" where
  "argv_at p i = (if i < length (argv p) then JStr (argv p ! i) else JUndefined)"

text \<open>\<^verbatim>\<open>process.argv[3] || process.env.NETWORK || 'bsc-testnet'\<close>\<close>

definition target_network :: "process \<Rightarrow> string" where
  "target_network p =
     js_to_string (js_or (argv_at p 3) (js_or (env_get (penv p) ''NETWORK'') (JStr ''bsc-testnet'')))"

text \<open>\<^verbatim>\<open>process.argv[2] || 'SimpleStorage'\<close>\<close>

definition target_contract :: "process \<Rightarrow> string" where
  "target_contract p = js_to_string (js_or (argv_at p 2) (JStr ''SimpleStorage''))"

section \<open>The verification script\<close>

subsection \<open>Network tables\<close>

text \<open>
  \<^verbatim>\<open>getRpcUrl\<close>, \<^verbatim>\<open>getApiUrl\<close> and \<^verbatim>\<open>getExplorerUrl\<close> index an object literal
  by the network name and fall back to the \<^verbatim>\<open>'bsc-testnet'\<close> entry with \<^verbatim>\<open>||\<close>;
  \<^verbatim>\<open>getApiKey\<close> picks the key by \<^verbatim>\<open>network.includes('bsc')\<close>.
\<close>

definition getRpcUrl :: "process \<Rightarrow> string \<Rightarrow> jsval" where
  "getRpcUrl p net =
     (let urls =
        [(''bsc'', js_or (env_get (penv p) ''BSC_MAINNET_RPC_URL'')
                     (JStr ''https://bsc-dataseed.binance.org/'')),
         (''bsc-testnet'', js_or (env_get (penv p) ''BSC_TESTNET_RPC_URL'')
                     (JStr ''https://data-seed-prebsc-1-s1.binance.org:8545/'')),
         (''ethereum'', env_get (penv p) ''ETH_MAINNET_RPC_URL''),
         (''sepolia'', env_get (penv p) ''ETH_SEPOLIA_RPC_URL'')]
      in js_or (get_property urls net) (get_property urls ''bsc-testnet''))"

definition getApiKey :: "process \<Rightarrow> string \<Rightarrow> jsval" where
  "getApiKey p net =
     (if str_includes net ''bsc'' then env_get (penv p) ''BSCSCAN_API_KEY''
      else env_get (penv p) ''ETHERSCAN_API_KEY'')"

definition getApiUrl :: "string \<Rightarrow> jsval" where
  "getApiUrl net =
     (let urls =
        [(''bsc'', JStr ''https://api.bscscan.com/api''),
         (''bsc-testnet'', JStr ''https://api-testnet.bscscan.com/api''),
         (''ethereum'', JStr ''https://api.etherscan.io/api''),
         (''sepolia'', JStr ''https://api-sepolia.etherscan.io/api'')]
      in js_or (get_property urls net) (get_property urls ''bsc-testnet''))"

definition getExplorerUrl :: "string \<Rightarrow> string \<Rightarrow> string" where
  "getExplorerUrl net addr =
     (let baseUrls =
        [(''bsc'', JStr ''https://bscscan.com''),
         (''bsc-testnet'', JStr ''https://testnet.bscscan.com''),
         (''ethereum'', JStr ''https://etherscan.io''),
         (''sepolia'', JStr ''https://sepolia.etherscan.io'')];
        baseUrl = js_or (get_property baseUrls net) (get_property baseUrls ''bsc-testnet'')
      in js_to_string baseUrl @ ''/address/'' @ addr @ ''#contracts'')"

subsection \<open>Writing the verification status back\<close>

definition console_warn :: "string \<Rightarrow> world \<Rightarrow> world" where
  "console_warn m = emit (ConsoleWarn m)"

definition console_error :: "string \<Rightarrow> world \<Rightarrow> world" where
  "console_error m = emit (ConsoleError m)"

text \<open>
  \<^verbatim>\<open>storeVerificationDetails\<close>: the record read at the start of the run, with a fresh
  \<^verbatim>\<open>verification\<close> sub-object, is written to the network's file.  The whole body is
  inside \<^verbatim>\<open>try\<close>; the handler prints a warning.
\<close>

definition storeVerificationDetails ::
  "string \<Rightarrow> deployment \<Rightarrow> string \<Rightarrow> compilation_settings \<Rightarrow> unit io" where
  "storeVerificationDetails net dep gid settings =
     io_catch
       (\<lambda>w. writeDeployment net
          (dep\<lparr>verification := Some
              \<lparr>status = Submitted, guid = Some gid, submittedAt = Some (clock w),
               verifiedAt = None, compilerVersion = Some (solcVersion settings),
               explorerUrl = Some (getExplorerUrl net (contractAddress dep)),
               failureReason = None\<rparr>\<rparr>) w)
       (\<lambda>e. io_effect
          (console_warn (''Warning: Could not store verification details: '' @ message e)))"

text \<open>
  \<^verbatim>\<open>updateVerificationStatus\<close> reads the file again, spreads the record and its
  \<^verbatim>\<open>verification\<close> sub-object (nothing when there is none), and sets \<^verbatim>\<open>status\<close>,
  \<^verbatim>\<open>verifiedAt\<close> (now for 'verified', else the old value) and \<^verbatim>\<open>failureReason\<close>.
  Read and write are inside \<^verbatim>\<open>try\<close>; the handler prints a warning.  The body
  uses neither its \<^verbatim>\<open>deployment\<close> nor its \<^verbatim>\<open>guid\<close> parameter, so the model has
  none.
\<close>

definition spread_verification :: "verification option \<Rightarrow> verification" where
  "spread_verification v =
     (case v of
        Some x \<Rightarrow> x
      | None \<Rightarrow> \<lparr>status = Submitted, guid = None, submittedAt = None, verifiedAt = None,
                 compilerVersion = None, explorerUrl = None, failureReason = None\<rparr>)"

definition set_status :: "vstatus \<Rightarrow> string option \<Rightarrow> nat \<Rightarrow> deployment \<Rightarrow> deployment" where
  "set_status st reason now currentDeployment =
     currentDeployment\<lparr>verification := Some
        ((spread_verification (verification currentDeployment))
           \<lparr>status := st,
            verifiedAt := (if st = Verified then Some now
                           else verifiedAt (spread_verification (verification currentDeployment))),
            failureReason := reason\<rparr>)\<rparr>"

definition updateVerificationStatus :: "string \<Rightarrow> vstatus \<Rightarrow> string option \<Rightarrow> unit io" where
  "updateVerificationStatus net st reason =
     io_catch
       (io_bind (readDeployment net) (\<lambda>currentDeployment w.
          writeDeployment net (set_status st reason (clock w) currentDeployment) w))
       (\<lambda>e. io_effect
          (console_warn (''Warning: Could not update verification status: '' @ message e)))"

subsection \<open>The poller\<close>

text \<open>One status-check GET: the next reply of the explorer; none left is a failed fetch.\<close>

definition fetch_status :: "string \<Rightarrow> string option io" where
  "fetch_status url w =
     (let w1 = emit (HttpGet url) w in
      case poll_script w1 of
        [] \<Rightarrow> (Inl (HttpFailed ''fetch failed''), w1)
      | r # rs \<Rightarrow>
          (case r of
             Result text \<Rightarrow> (Inr (Some text), w1\<lparr>poll_script := rs\<rparr>)
           | NoResult \<Rightarrow> (Inr None, w1\<lparr>poll_script := rs\<rparr>)
           | NetworkError m \<Rightarrow> (Inl (HttpFailed m), w1\<lparr>poll_script := rs\<rparr>)))"

text \<open>
  \<^verbatim>\<open>
  for (let i = 0; i < 20; i++) {
    await new Promise(resolve => setTimeout(resolve, 3000));
    const statusResponse = await fetch(`...checkverifystatus&guid=${guid}&apikey=${apiKey}`);
    const result = await statusResponse.json();
    if (result.result === 'Pass - Verified') {
      await updateVerificationStatus(network, deployment, 'verified', guid);
      return;
    } else if (result.result.includes('Fail')) {
      await updateVerificationStatus(network, deployment, 'failed', guid, result.result);
      throw new Error('Verification failed: ' + result.result);
    }
  }
  await updateVerificationStatus(network, deployment, 'timeout', guid);
  throw new Error('Verification timeout');
  \<close>
  The loop from counter value \<open>i\<close> on.  A body without a \<^verbatim>\<open>result\<close> makes
  \<^verbatim>\<open>result.result.includes\<close> a TypeError.
\<close>


function poll_loop :: "nat \<Rightarrow> string \<Rightarrow> string \<Rightarrow> unit io" where
  "poll_loop i url net w =
     (if i < 20 then
        (case fetch_status url (sleep 3000 w) of
           (Inl e, w2) \<Rightarrow> (Inl e, w2)
         | (Inr None, w2) \<Rightarrow>
             (Inl (TypeError (reading_undefined ''includes'')), w2)
         | (Inr (Some text), w2) \<Rightarrow>
             if text = ''Pass - Verified'' then
               io_bind (updateVerificationStatus net Verified None) (\<lambda>u. io_return ()) w2
             else if str_includes text ''Fail'' then
               io_bind (updateVerificationStatus net Failed (Some text))
                 (\<lambda>u. io_throw (VerificationFailed text)) w2
             else poll_loop (Suc i) url net w2)
      else io_bind (updateVerificationStatus net Timeout None)
             (\<lambda>u. io_throw VerificationTimeout) w)"
  by pat_completeness auto
termination
  by (relation "measure (\<lambda>(i, url, net, w). 20 - i)") auto

declare poll_loop.simps [simp del]

subsection \<open>Observations on a run of the poller\<close>

text \<open>
  \<open>poll_rounds n url\<close> is the trace of \<open>n\<close> attempts: each one a 3000 ms suspension
  followed by the status-check GET.  \<open>storage_event\<close> holds of what the write-back of a
  status leaves in the trace.  \<open>persisted\<close> is the verification sub-object in the
  network's deployment file.
\<close>

definition poll_rounds :: "nat \<Rightarrow> string \<Rightarrow> event list" where
  "poll_rounds n url = concat (replicate n [Sleep 3000, HttpGet url])"

fun storage_event :: "event \<Rightarrow> bool" where
  "storage_event (ReadFile p) = True"
| "storage_event (WriteFile p) = True"
| "storage_event (ConsoleWarn m) = True"
| "storage_event e = False"

fun is_write :: "event \<Rightarrow> bool" where
  "is_write (WriteFile p) = True"
| "is_write e = False"

fun terminal :: "vstatus \<Rightarrow> bool" where
  "terminal Submitted = False"
| "terminal Verified = True"
| "terminal Failed = True"
| "terminal Timeout = True"

definition persisted :: "world \<Rightarrow> string \<Rightarrow> verification option" where
  "persisted w net =
     (case deployment_files w net of None \<Rightarrow> None | Some d \<Rightarrow> verification d)"

text \<open>A reply text on which the loop goes round again.\<close>

definition pending_text :: "string \<Rightarrow> bool" where
  "pending_text text = (text \<noteq> ''Pass - Verified'' \<and> \<not> str_includes text ''Fail'')"

text \<open>
  The world after \<open>n\<close> attempts that left \<open>rest\<close> of the replies, and the ways a run
  of the loop can end from there: a status written back and the matching result, or a
  failed status check with nothing written.
\<close>

definition after_rounds :: "nat \<Rightarrow> string \<Rightarrow> http_reply list \<Rightarrow> world \<Rightarrow> world" where
  "after_rounds n url rest w =
     w\<lparr>clock := clock w + 3000 * n, poll_script := rest,
       trace := trace w @ poll_rounds n url\<rparr>"

definition poll_ending :: "string \<Rightarrow> world \<Rightarrow> (error + unit) \<times> world \<Rightarrow> bool" where
  "poll_ending net w2 r \<longleftrightarrow>
     r = (Inr (), snd (updateVerificationStatus net Verified None w2))
     \<or> (\<exists>t. str_includes t ''Fail''
           \<and> r = (Inl (VerificationFailed t),
                  snd (updateVerificationStatus net Failed (Some t) w2)))
     \<or> r = (Inl VerificationTimeout, snd (updateVerificationStatus net Timeout None w2))
     \<or> (\<exists>m. r = (Inl (HttpFailed m), w2))
     \<or> (\<exists>m. r = (Inl (TypeError m), w2))"

definition status_url :: "jsval \<Rightarrow> jsval \<Rightarrow> string \<Rightarrow> string" where
  "status_url apiUrl apiKey gid =
     js_to_string apiUrl @ ''?module=contract&action=checkverifystatus&guid='' @ gid
       @ ''&apikey='' @ js_to_string apiKey"

definition pollVerificationStatus :: "jsval \<Rightarrow> jsval \<Rightarrow> string \<Rightarrow> string \<Rightarrow> unit io" where
  "pollVerificationStatus apiUrl apiKey gid net =
     poll_loop 0 (status_url apiUrl apiKey gid) net"

subsection \<open>Submission\<close>

text \<open>
  \<^verbatim>\<open>
  if (!solcVersion.includes('+commit.')) {
    console.warn('Version missing commit hash - this may cause verification failure');
    console.warn(`Current version: ${solcVersion}`);
    console.warn('Expected format: 0.8.20+commit.a1b79de6');
  }
  \<close>
\<close>

definition validate_version :: "string \<Rightarrow> world \<Rightarrow> world" where
  "validate_version v w =
     (if \<not> str_includes v ''+commit.'' then
        console_warn ''Expected format: 0.8.20+commit.a1b79de6''
          (console_warn (''Current version: '' @ v)
            (console_warn ''Version missing commit hash - this may cause verification failure'' w))
      else w)"

text \<open>
  The constructor arguments: the record's pre-encoded string when it is truthy (not
  empty), otherwise a fresh ABI encoding with the first two characters sliced off.
\<close>

definition encode_args :: "services \<Rightarrow> deployment \<Rightarrow> string io" where
  "encode_args svc dep =
     (if encodedConstructorArgs dep \<noteq> [] then io_return (encodedConstructorArgs dep)
      else io_bind (client ''encode'' (abiEncode svc (constructorTypes dep) (constructorArgs dep)))
             (\<lambda>enc. io_return (str_slice 2 enc)))"

definition verificationPayload ::
  "process \<Rightarrow> string \<Rightarrow> deployment \<Rightarrow> compilation_settings \<Rightarrow> string \<Rightarrow> string \<Rightarrow> payload" where
  "verificationPayload p net dep settings src encodedArgs =
     \<lparr>apikey = getApiKey p net,
      api_module = ''contract'',
      action = ''verifysourcecode'',
      contractaddress = contractAddress dep,
      sourceCode = src,
      codeformat = ''solidity-single-file'',
      contractname = set_contractName settings,
      compilerversion = ''v'' @ solcVersion settings,
      optimizationUsed = (if optimization_enabled settings then ''1'' else ''0''),
      runs = nat_to_string (optimization_runs settings),
      constructorArguements = encodedArgs,
      licenseType = getLicenseType (license settings)\<rparr>"

definition submitVerification :: "services \<Rightarrow> jsval \<Rightarrow> payload \<Rightarrow> api_response io" where
  "submitVerification svc apiUrl pl w =
     (let url = js_to_string apiUrl; w1 = emit (HttpPost url pl) w in
      case verifysourcecode svc url pl of
        Inl (m, c) \<Rightarrow> (Inl (HttpFailed m), w1)
      | Inr response \<Rightarrow> (Inr response, w1))"

subsection \<open>\<^verbatim>\<open>verifyContract\<close>\<close>

text \<open>
  The body of the \<^verbatim>\<open>try\<close> block, in the order of the source.  Its second half,
  the statements after the bytecode check: constructor arguments, source text, payload,
  submission, then (on status \<^verbatim>\<open>'1'\<close>) the initial status record and the poller,
  otherwise the rejection is thrown.
\<close>

definition submit_and_poll ::
  "process \<Rightarrow> services \<Rightarrow> string \<Rightarrow> compilation_settings \<Rightarrow> deployment \<Rightarrow> unit io" where
  "submit_and_poll p svc net compilationSettings dep =
     io_bind (encode_args svc dep) (\<lambda>encodedArgs.
     io_bind (readSource (set_contractName compilationSettings @ ''.sol'')) (\<lambda>src.
     io_bind (submitVerification svc (getApiUrl net)
                (verificationPayload p net dep compilationSettings src encodedArgs))
       (\<lambda>response.
     if resp_status response = ''1'' then
       io_bind (storeVerificationDetails net dep (resp_result response) compilationSettings)
         (\<lambda>u. pollVerificationStatus (getApiUrl net) (getApiKey p net)
                 (resp_result response) net)
     else io_throw (SubmissionRejected (resp_message response)))))"

text \<open>
  Its first half: settings file, version warning, deployment record, live bytecode, and
  \<^verbatim>\<open>
  if (!deployedBytecode.includes(compilationSettings.deployedBytecode.slice(2))) {
    throw new Error('Deployed bytecode does not match compiled bytecode');
  }
  \<close>
\<close>

definition verifyContract_try :: "process \<Rightarrow> services \<Rightarrow> unit io" where
  "verifyContract_try p svc =
     io_bind readSettings (\<lambda>compilationSettings.
     io_bind (io_effect (validate_version (solcVersion compilationSettings))) (\<lambda>u.
     io_bind (readDeployment (target_network p)) (\<lambda>dep.
     io_bind (rpc ''getCode'' (js_to_string (getRpcUrl p (target_network p)))
                (getCode svc (js_to_string (getRpcUrl p (target_network p)))
                   (contractAddress dep)))
       (\<lambda>liveBytecode.
     if \<not> str_includes liveBytecode (str_slice 2 (deployedBytecode compilationSettings))
     then io_throw BytecodeMismatch
     else submit_and_poll p svc (target_network p) compilationSettings dep))))"

text \<open>
  How the script ends: the promise resolves (the process then ends with status 0),
  \<^verbatim>\<open>process.exit(n)\<close> is called, or the promise is rejected.

  The \<^verbatim>\<open>catch\<close> block prints a hint when the message mentions an unsupported compiler
  version.  Its second line reads \<^verbatim>\<open>compilationSettings.solcVersion\<close>, a \<^verbatim>\<open>const\<close>
  of the \<^verbatim>\<open>try\<close> block that is not in scope in the handler, so that branch ends
  in a ReferenceError after the first line.  Otherwise the handler prints
  \<^verbatim>\<open>Verification failed: <message>\<close> and calls \<^verbatim>\<open>process.exit(1)\<close>.
\<close>

datatype outcome = Resolved | Exit nat | Rejected error

definition verifyContract_catch :: "error \<Rightarrow> world \<Rightarrow> outcome \<times> world" where
  "verifyContract_catch e w =
     (if str_includes (message e) ''Invalid Or Not supported solc version'' then
        (Rejected (ReferenceError ''compilationSettings is not defined''),
         console_error ''Compiler version not supported by block explorer'' w)
      else (Exit 1, console_error (''Verification failed: '' @ message e) w))"

definition verifyContract :: "process \<Rightarrow> services \<Rightarrow> world \<Rightarrow> outcome \<times> world" where
  "verifyContract p svc w =
     (case verifyContract_try p svc w of
        (Inl e, w') \<Rightarrow> verifyContract_catch e w'
      | (Inr u, w') \<Rightarrow> (Resolved, w'))"

subsection \<open>Observations on a run of the verification script\<close>

text \<open>
  The events a run adds to the trace, the three warnings about a version without commit
  hash, and the event of a submission to the explorer.
\<close>

definition new_events :: "world \<Rightarrow> world \<Rightarrow> event list" where
  "new_events w w' = drop (length (trace w)) (trace w')"

definition version_warnings :: "string \<Rightarrow> event list" where
  "version_warnings v =
     (if \<not> str_includes v ''+commit.'' then
        [ConsoleWarn ''Version missing commit hash - this may cause verification failure'',
         ConsoleWarn (''Current version: '' @ v),
         ConsoleWarn ''Expected format: 0.8.20+commit.a1b79de6'']
      else [])"

fun is_submission :: "event \<Rightarrow> bool" where
  "is_submission (HttpPost url pl) = True"
| "is_submission e = False"

section \<open>The deployment script\<close>

text \<open>
  \<^verbatim>\<open>getProvider\<close>: a \<^verbatim>\<open>switch\<close> on the network name (no object lookup here), then
  \<^verbatim>\<open>if (!rpcUrl) throw\<close>.  \<^verbatim>\<open>getSigner\<close>: the private key from the environment,
  \<^verbatim>\<open>if (!privateKey) throw\<close>, then the wallet, whose address the script asks for next.
\<close>

definition getProvider :: "process \<Rightarrow> string \<Rightarrow> string io" where
  "getProvider p net =
     (let rpcUrl =
        (if net = ''bsc'' then
           js_or (env_get (penv p) ''BSC_MAINNET_RPC_URL'')
             (JStr ''https://bsc-dataseed.binance.org/'')
         else if net = ''bsc-testnet'' then
           js_or (env_get (penv p) ''BSC_TESTNET_RPC_URL'')
             (JStr ''https://data-seed-prebsc-1-s1.binance.org:8545/'')
         else if net = ''ethereum'' then env_get (penv p) ''ETH_MAINNET_RPC_URL''
         else if net = ''sepolia'' then env_get (penv p) ''ETH_SEPOLIA_RPC_URL''
         else js_or (env_get (penv p) ''BSC_TESTNET_RPC_URL'')
                (JStr ''https://data-seed-prebsc-1-s1.binance.org:8545/''))
      in if \<not> truthy rpcUrl then io_throw (NoRpcUrl net) else io_return (js_to_string rpcUrl))"

definition getSigner :: "process \<Rightarrow> services \<Rightarrow> string io" where
  "getSigner p svc =
     (let privateKey = env_get (penv p) ''PRIVATE_KEY'' in
      if \<not> truthy privateKey then io_throw NoPrivateKey
      else client ''Wallet'' (walletAddress svc (js_to_string privateKey)))"

text \<open>
  The constructor's parameter types:
  \<^verbatim>\<open>artifact.abi.find(item => item.type === 'constructor')?.inputs.map(input => input.type) || []\<close>
\<close>

definition constructor_types :: "artifact \<Rightarrow> string list" where
  "constructor_types a =
     (case find (\<lambda>item. item_type item = ''constructor'') (abi a) of
        None \<Rightarrow> []
      | Some fragment \<Rightarrow> map snd (inputs fragment))"

text \<open>
  \<^verbatim>\<open>
  let encodedConstructorArgs = '';
  if (constructorArgs.length > 0) {
    ...
    encodedConstructorArgs = abiCoder.encode(paramTypes, constructorArgs).slice(2);
  }
  \<close>
\<close>

definition encode_constructor_args :: "services \<Rightarrow> artifact \<Rightarrow> string list \<Rightarrow> string io" where
  "encode_constructor_args svc a args =
     (if length args > 0 then
        io_bind (client ''encode'' (abiEncode svc (constructor_types a) args))
          (\<lambda>enc. io_return (str_slice 2 enc))
      else io_return [])"

definition now :: "nat io" where
  "now w = (Inr (clock w), w)"

definition deployments_dir :: string where
  "deployments_dir = ''deployments''"

definition public_deployments_dir :: string where
  "public_deployments_dir = ''public/deployments''"

text \<open>
  The body of the \<^verbatim>\<open>try\<close> block of \<^verbatim>\<open>deploy\<close>, statement by statement,
  from its end.  The statements after \<^verbatim>\<open>factory.deploy\<close>: the wait for the
  confirmation, the encoding of the constructor arguments, and last the record, written
  to the canonical file and then to the public copy.
\<close>

definition deploy_confirm ::
  "process \<Rightarrow> services \<Rightarrow> artifact \<Rightarrow> string \<Rightarrow> string \<Rightarrow> int \<Rightarrow> string \<times> string
   \<Rightarrow> (string \<times> string) io" where
  "deploy_confirm p svc artifact provider address chain sent =
     io_bind (rpc ''waitForDeployment'' provider (waitForDeployment svc provider (fst sent)))
       (\<lambda>u.
     io_bind (encode_constructor_args svc artifact (drop 4 (argv p))) (\<lambda>encoded.
     io_bind now (\<lambda>time.
     io_bind (writeDeployment (target_network p)
                \<lparr>contractName = target_contract p, contractAddress = snd sent,
                 deploymentTx = fst sent, deployer = address, network = target_network p,
                 chainId = chain, timestamp = time, constructorArgs = drop 4 (argv p),
                 constructorTypes = constructor_types artifact,
                 encodedConstructorArgs = encoded, verification = None\<rparr>) (\<lambda>u.
     io_bind (mkdir public_deployments_dir) (\<lambda>u.
     io_bind (writePublicDeployment (target_network p)
                \<lparr>contractName = target_contract p, contractAddress = snd sent,
                 deploymentTx = fst sent, deployer = address, network = target_network p,
                 chainId = chain, timestamp = time, constructorArgs = drop 4 (argv p),
                 constructorTypes = constructor_types artifact,
                 encodedConstructorArgs = encoded, verification = None\<rparr>) (\<lambda>u.
     io_return (snd sent, fst sent)))))))"

text \<open>
  The statements between the balance check and the confirmation: chain id, gas estimate,
  \<^verbatim>\<open>
  const gasLimit = deploymentGas * 120n / 100n;
  const contract = await factory.deploy(...constructorArgs, { gasLimit });
  \<close>
\<close>

definition deploy_funded ::
  "process \<Rightarrow> services \<Rightarrow> artifact \<Rightarrow> string \<Rightarrow> string \<Rightarrow> (string \<times> string) io" where
  "deploy_funded p svc artifact provider address =
     io_bind (rpc ''getNetwork'' provider (getNetwork svc provider)) (\<lambda>chain.
     io_bind (client ''getDeployTransaction''
                (getDeployTransaction svc artifact (drop 4 (argv p)))) (\<lambda>data.
     io_bind (rpc ''estimateGas'' provider (estimateGas svc provider address data))
       (\<lambda>deploymentGas.
     case gasLimit deploymentGas of
       None \<Rightarrow> io_throw (RangeError ''Division by zero'')
     | Some limit \<Rightarrow>
     io_bind (send_transaction provider limit
                (sendDeploy svc provider address (drop 4 (argv p)))) (\<lambda>sent.
     deploy_confirm p svc artifact provider address chain sent))))"

text \<open>
  Its first half: deployments directory, artifact, provider, signer, and
  \<^verbatim>\<open>
  const balance = await provider.getBalance(address);
  if (balance === 0n) {
    throw new Error('Deployer has no funds. Please fund your account first.');
  }
  \<close>
\<close>

definition deploy_try :: "process \<Rightarrow> services \<Rightarrow> (string \<times> string) io" where
  "deploy_try p svc =
     io_bind (mkdir deployments_dir) (\<lambda>u.
     io_bind (readArtifact (target_contract p)) (\<lambda>artifact.
     io_bind (getProvider p (target_network p)) (\<lambda>provider.
     io_bind (getSigner p svc) (\<lambda>address.
     io_bind (rpc ''getBalance'' provider (getBalance svc provider address)) (\<lambda>balance.
     if balance = 0 then io_throw NoFunds
     else deploy_funded p svc artifact provider address)))))"

text \<open>
  What \<^verbatim>\<open>deploy\<close> returns: \<^verbatim>\<open>{ success: true, contractAddress, deploymentTx }\<close> or,
  from the \<^verbatim>\<open>catch\<close> block, \<^verbatim>\<open>{ success: false, error: error.message }\<close>.
\<close>

datatype deploy_result = DeploySuccess string string | DeployFailure string

definition deploy_catch :: "error \<Rightarrow> world \<Rightarrow> deploy_result \<times> world" where
  "deploy_catch e w =
     (let w1 = console_error (''Deployment failed: '' @ message e) w;
          w2 = (if code e = Some ''INSUFFICIENT_FUNDS''
                then console_error ''Make sure your account has enough funds for deployment'' w1
                else w1)
      in (DeployFailure (message e), w2))"

definition deploy :: "process \<Rightarrow> services \<Rightarrow> world \<Rightarrow> deploy_result \<times> world" where
  "deploy p svc w =
     (case deploy_try p svc w of
        (Inl e, w') \<Rightarrow> deploy_catch e w'
      | (Inr (addr, tx), w') \<Rightarrow> (DeploySuccess addr tx, w'))"

text \<open>Observation: a transaction sent to the chain.\<close>

fun is_send :: "event \<Rightarrow> bool" where
  "is_send (SendTransaction url limit) = True"
| "is_send e = False"

text \<open>
  The failures that belong to the last step, the writing of the record: the two file
  writes and the creation of the public directory between them.
\<close>

fun persistence_error :: "error \<Rightarrow> bool" where
  "persistence_error (WriteFailed path m) = True"
| "persistence_error (MkdirFailed path m) = (path = public_deployments_dir)"
| "persistence_error e = False"

section \<open>Reasoning about sequences of steps\<close>

text \<open>
  Three properties of a computation, relative to a relation \<open>R\<close> between the world
  before and after and a set \<open>E\<close> of errors: every run leaves the world \<open>R\<close>-related;
  every error it throws is in \<open>E\<close>; every error it throws is in \<open>E\<close> or leaves the
  world \<open>R\<close>-related.
\<close>

definition preserves :: "(world \<Rightarrow> world \<Rightarrow> bool) \<Rightarrow> 'a io \<Rightarrow> bool" where
  "preserves R m \<longleftrightarrow> (\<forall>w. R w (snd (m w)))"

definition fails_only :: "(error \<Rightarrow> bool) \<Rightarrow> 'a io \<Rightarrow> bool" where
  "fails_only E m \<longleftrightarrow> (\<forall>w e w'. m w = (Inl e, w') \<longrightarrow> E e)"

definition guarded :: "(world \<Rightarrow> world \<Rightarrow> bool) \<Rightarrow> (error \<Rightarrow> bool) \<Rightarrow> 'a io \<Rightarrow> bool" where
  "guarded R E m \<longleftrightarrow> (\<forall>w e w'. m w = (Inl e, w') \<longrightarrow> E e \<or> R w w')"

text \<open>The two relations used below: no record file changed; no transaction was sent.\<close>

definition same_records :: "world \<Rightarrow> world \<Rightarrow> bool" where
  "same_records w w' \<longleftrightarrow>
     deployment_files w' = deployment_files w
     \<and> public_deployment_files w' = public_deployment_files w"

definition nothing_sent :: "world \<Rightarrow> world \<Rightarrow> bool" where
  "nothing_sent w w' \<longleftrightarrow> (\<exists>t. trace w' = trace w @ t \<and> \<not> list_ex is_send t)"

section \<open>The compiler version pattern\<close>

text \<open>
  The commit-qualified version format \<^verbatim>\<open><major>.<minor>.<patch>+commit.<hex>\<close>, as
  the regular expression \<^verbatim>\<open>\d+\.\d+\.\d+\+commit\.[a-f0-9]+\<close> of
  \<^verbatim>\<open>getCompilerVersion\<close> writes it.  \<open>match_version s\<close> matches the expression at
  the start of \<open>s\<close> and returns the matched text; the quantifiers are greedy, and since
  a digit run is always followed by a character that is no digit, the longest run is the
  only one that can match.
\<close>

definition is_digit :: "char \<Rightarrow> bool" where
  "is_digit c = (c \<in> set ''0123456789'')"

definition is_hex :: "char \<Rightarrow> bool" where
  "is_hex c = (c \<in> set ''0123456789abcdef'')"

definition match_run :: "(char \<Rightarrow> bool) \<Rightarrow> string \<Rightarrow> (string \<times> string) option" where
  "match_run cls s =
     (if takeWhile cls s = [] then None else Some (takeWhile cls s, dropWhile cls s))"

definition match_lit :: "string \<Rightarrow> string \<Rightarrow> (string \<times> string) option" where
  "match_lit lit s = (if prefix lit s then Some (lit, drop (length lit) s) else None)"

definition match_seq ::
  "(string \<Rightarrow> (string \<times> string) option) list \<Rightarrow> string \<Rightarrow> (string \<times> string) option" where
  "match_seq ms s =
     foldl (\<lambda>acc m. case acc of
                        None \<Rightarrow> None
                      | Some (done, rest) \<Rightarrow>
                          (case m rest of
                             None \<Rightarrow> None
                           | Some (x, rest') \<Rightarrow> Some (done @ x, rest')))
       (Some ([], s)) ms"

definition match_version :: "string \<Rightarrow> (string \<times> string) option" where
  "match_version =
     match_seq [match_run is_digit, match_lit ''.'', match_run is_digit, match_lit ''.'',
                match_run is_digit, match_lit ''+commit.'', match_run is_hex]"

text \<open>The whole string has the format.\<close>

definition commit_qualified :: "string \<Rightarrow> bool" where
  "commit_qualified v = (case match_version v of Some (x, rest) \<Rightarrow> rest = [] | None \<Rightarrow> False)"

section \<open>The compile script\<close>

subsection \<open>The compiler\<close>

text \<open>
  \<^verbatim>\<open>solc\<close> as the answers it gives: its version string, and for a file name and a
  source text the parsed standard-JSON output (or a thrown error).  Of the output the
  script reads \<^verbatim>\<open>errors\<close> (absent, or a list of diagnostics) and
  \<^verbatim>\<open>contracts[file][contractName]\<close>.
\<close>

record diagnostic =
  severity :: string
  formattedMessage :: string

record contract_output =
  co_abi :: "abi_item list"
  co_bytecode :: string
  co_deployedBytecode :: string
  co_metadata :: string

record compiler_output =
  errors :: "diagnostic list option"
  contracts :: "(string \<times> (string \<times> contract_output) list) list option"

record compiler =
  solc_version :: "string reply"
  solc_compile :: "string \<Rightarrow> string \<Rightarrow> compiler_output reply"

subsection \<open>Version detection\<close>

text \<open>
  \<^verbatim>\<open>fullVersion.match(re)\<close> without the global flag: the leftmost position at which
  the expression matches, and the text matched there.
\<close>

fun find_match :: "(string \<Rightarrow> (string \<times> string) option) \<Rightarrow> string \<Rightarrow> string option" where
  "find_match m [] = map_option fst (m [])"
| "find_match m (c # cs) =
     (case m (c # cs) of Some (x, rest) \<Rightarrow> Some x | None \<Rightarrow> find_match m cs)"

definition match_semver :: "string \<Rightarrow> (string \<times> string) option" where
  "match_semver =
     match_seq [match_run is_digit, match_lit ''.'', match_run is_digit, match_lit ''.'',
                match_run is_digit]"

text \<open>
  \<^verbatim>\<open>getCompilerVersion\<close>: the commit-qualified version if the version string holds
  one, else the plain semantic version with a warning, else (also when \<^verbatim>\<open>solc.version()\<close>
  throws) the \<^verbatim>\<open>catch\<close> block's fallback \<^verbatim>\<open>'0.8.20'\<close>.
\<close>

definition getCompilerVersion :: "compiler \<Rightarrow> string io" where
  "getCompilerVersion cc =
     io_catch
       (io_bind (client ''version'' (solc_version cc)) (\<lambda>fullVersion.
          case find_match match_version fullVersion of
            Some v \<Rightarrow> io_return v
          | None \<Rightarrow>
              (case find_match match_semver fullVersion of
                 Some v \<Rightarrow>
                   io_bind (io_effect
                     (console_warn ''Using semantic version only - verification may fail''))
                     (\<lambda>u. io_return v)
               | None \<Rightarrow>
                   io_throw (CompilerFailed (''Could not extract version from: '' @ fullVersion)))))
       (\<lambda>e. io_bind (io_effect (console_error (''Version detection failed: '' @ message e)))
          (\<lambda>u. io_return ''0.8.20''))"

subsection \<open>License and pragma\<close>

text \<open>
  \<^verbatim>\<open>contractSource.match(/SPDX-License-Identifier: (.*?)(\r?\n|\*\/)/)\<close> and
  \<^verbatim>\<open>contractSource.match(/pragma solidity (.*?);/)\<close>: a literal marker, a lazy group of
  characters that are no line terminators, and one of several closing strings.
  \<open>lazy_capture\<close> extends the group one character at a time until a closing string
  follows; \<open>regex_capture\<close> tries the marker at every position from the left.
  Line terminators and the white space that \<^verbatim>\<open>trim()\<close> removes are the ASCII ones.
\<close>

definition line_terminator :: "char \<Rightarrow> bool" where
  "line_terminator c = (c = CHR 0x0A \<or> c = CHR 0x0D)"

fun lazy_capture :: "string list \<Rightarrow> string \<Rightarrow> string option" where
  "lazy_capture stops [] = (if list_ex (\<lambda>t. t = []) stops then Some [] else None)"
| "lazy_capture stops (c # cs) =
     (if list_ex (\<lambda>t. prefix t (c # cs)) stops then Some []
      else if line_terminator c then None
      else map_option ((#) c) (lazy_capture stops cs))"

fun regex_capture :: "string \<Rightarrow> string list \<Rightarrow> string \<Rightarrow> string option" where
  "regex_capture marker stops [] =
     (if marker = [] then lazy_capture stops [] else None)"
| "regex_capture marker stops (c # cs) =
     (case (if prefix marker (c # cs) then lazy_capture stops (drop (length marker) (c # cs))
            else None) of
        Some captured \<Rightarrow> Some captured
      | None \<Rightarrow> regex_capture marker stops cs)"

definition js_space :: "char \<Rightarrow> bool" where
  "js_space c = (c \<in> set [CHR 0x20, CHR 0x09, CHR 0x0A, CHR 0x0B, CHR 0x0C, CHR 0x0D])"

definition trim :: "string \<Rightarrow> string" where
  "trim s = rev (dropWhile js_space (rev (dropWhile js_space s)))"

definition extract_license :: "string \<Rightarrow> string" where
  "extract_license contractSource =
     (case regex_capture ''SPDX-License-Identifier: ''
             [[CHR 0x0D, CHR 0x0A], [CHR 0x0A], ''*/''] contractSource of
        Some captured \<Rightarrow> trim captured
      | None \<Rightarrow> ''UNLICENSED'')"

definition extract_pragma :: "string \<Rightarrow> string" where
  "extract_pragma contractSource =
     (case regex_capture ''pragma solidity '' ['';''] contractSource of
        Some captured \<Rightarrow> trim captured
      | None \<Rightarrow> ''0.8.20'')"

subsection \<open>One contract file\<close>

definition artifacts_dir :: string where
  "artifacts_dir = ''artifacts''"

definition contracts_path :: string where
  "contracts_path = ''contracts''"

definition readdir :: "string list io" where
  "readdir w =
     (case next_fault (emit (Readdir contracts_path) w) of
        (Some m, w1) \<Rightarrow> (Inl (ReaddirFailed contracts_path m), w1)
      | (None, w1) \<Rightarrow>
          (case contracts_dir w1 of
             None \<Rightarrow> (Inl (ReaddirFailed contracts_path (enoent ''scandir'' contracts_path)), w1)
           | Some files \<Rightarrow> (Inr files, w1)))"

definition writeArtifact :: "string \<Rightarrow> artifact \<Rightarrow> unit io" where
  "writeArtifact cname a =
     write_file (artifact_path cname)
       (\<lambda>w. w\<lparr>artifact_files := (artifact_files w)(cname \<mapsto> a)\<rparr>)"

definition writeSettings :: "compilation_settings \<Rightarrow> unit io" where
  "writeSettings cs = write_file settings_path (\<lambda>w. w\<lparr>settings_file := Some cs\<rparr>)"

text \<open>
  \<^verbatim>\<open>path.basename(file, '.sol')\<close> for a directory entry that ends with \<^verbatim>\<open>.sol\<close>:
  the name without the suffix (the empty string for the entry \<^verbatim>\<open>.sol\<close> itself).
\<close>

definition basename_sol :: "string \<Rightarrow> string" where
  "basename_sol file = take (length file - 4) file"

text \<open>
  \<^verbatim>\<open>
  if (output.errors) {
    const hasError = output.errors.some(error => error.severity === 'error');
    ...
    if (hasError) throw new Error('Compilation failed due to errors');
  }
  \<close>
\<close>

definition check_errors :: "compiler_output \<Rightarrow> unit io" where
  "check_errors output =
     (case errors output of
        None \<Rightarrow> io_return ()
      | Some es \<Rightarrow>
          if list_ex (\<lambda>e. severity e = ''error'') es then io_throw CompilationErrors
          else io_return ())"

text \<open>
  \<^verbatim>\<open>const contract = output.contracts[file][contractName]; if (!contract) throw ...\<close>
  A missing \<^verbatim>\<open>contracts\<close> object makes the indexing by the file name a TypeError,
  a missing file entry the indexing by the contract name.  For a contract name that
  \<^verbatim>\<open>Object.prototype\<close> knows, the lookup yields the inherited value, which passes
  the test and has no \<^verbatim>\<open>evm\<close>, so \<^verbatim>\<open>contract.evm.bytecode\<close> is the TypeError.
\<close>

definition lookup_contract :: "compiler_output \<Rightarrow> string \<Rightarrow> string \<Rightarrow> contract_output io" where
  "lookup_contract output file cname =
     (case contracts output of
        None \<Rightarrow> io_throw (TypeError (reading_undefined file))
      | Some by_file \<Rightarrow>
          (case map_of by_file file of
             None \<Rightarrow> io_throw (TypeError (reading_undefined cname))
           | Some by_name \<Rightarrow>
               (case map_of by_name cname of
                  Some c \<Rightarrow> io_return c
                | None \<Rightarrow>
                    if cname \<in> set object_prototype_keys
                    then io_throw (TypeError (reading_undefined ''bytecode''))
                    else io_throw (ContractNotFound cname))))"

definition compile_file :: "compiler \<Rightarrow> string \<Rightarrow> string \<Rightarrow> unit io" where
  "compile_file cc version file =
     io_bind (readSource file) (\<lambda>contractSource.
     io_bind (client ''compile'' (solc_compile cc file contractSource)) (\<lambda>output.
     io_bind (check_errors output) (\<lambda>u.
     io_bind (lookup_contract output file (basename_sol file)) (\<lambda>contract.
     io_bind (writeArtifact (basename_sol file)
                \<lparr>art_contractName = basename_sol file, abi = co_abi contract,
                 bytecode = co_bytecode contract,
                 art_deployedBytecode = co_deployedBytecode contract,
                 metadata = co_metadata contract\<rparr>) (\<lambda>u.
     io_bind now (\<lambda>time.
     writeSettings
       \<lparr>set_contractName = basename_sol file, solcVersion = version,
        optimization_enabled = True, optimization_runs = 200,
        pragma = extract_pragma contractSource, license = extract_license contractSource,
        deployedBytecode = co_deployedBytecode contract,
        compilationTimestamp = time\<rparr>))))))"

subsection \<open>\<^verbatim>\<open>compile\<close>\<close>

text \<open>
  \<^verbatim>\<open>for (const file of contractFiles) { if (!file.endsWith('.sol')) continue; ... }\<close>
\<close>

fun compile_files :: "compiler \<Rightarrow> string \<Rightarrow> string list \<Rightarrow> unit io" where
  "compile_files cc version [] = io_return ()"
| "compile_files cc version (file # files) =
     (if \<not> suffix ''.sol'' file then compile_files cc version files
      else io_bind (compile_file cc version file)
             (\<lambda>u. compile_files cc version files))"

text \<open>
  \<^verbatim>\<open>
  async function compile() {
    try {
      ...
      return true;
    } catch (error) {
      console.error('Compilation failed:', error.message);
      return false;
    }
  }
  \<close>
\<close>

definition compile_try :: "compiler \<Rightarrow> bool io" where
  "compile_try cc =
     io_bind (mkdir artifacts_dir) (\<lambda>u.
     io_bind (getCompilerVersion cc) (\<lambda>version.
     io_bind readdir (\<lambda>contractFiles.
     io_bind (compile_files cc version contractFiles) (\<lambda>u.
     io_return True))))"

definition compile :: "compiler \<Rightarrow> bool io" where
  "compile cc =
     io_catch (compile_try cc)
       (\<lambda>e. io_bind (io_effect (console_error (''Compilation failed: '' @ message e)))
          (\<lambda>u. io_return False))"

text \<open>
  The entry point: \<^verbatim>\<open>compile();\<close> with the promise left alone.  The process ends
  with status 0 when the promise resolves and with status 1, through the unhandled
  rejection, when it is rejected.
\<close>

definition compile_main :: "compiler \<Rightarrow> world \<Rightarrow> outcome \<times> world" where
  "compile_main cc w =
     (case compile cc w of
        (Inl e, w') \<Rightarrow> (Rejected e, w')
      | (Inr success, w') \<Rightarrow> (Resolved, w'))"

fun exit_status :: "outcome \<Rightarrow> nat" where
  "exit_status Resolved = 0"
| "exit_status (Exit n) = n"
| "exit_status (Rejected e) = 1"

section \<open>A sample project\<close>

text \<open>
  The shipped contract \<^verbatim>\<open>SimpleStorage\<close> (no constructor arguments, MIT license)
  compiled, deployed to \<^verbatim>\<open>bsc-testnet\<close> and about to be verified: the concrete
  state at which the general statements below are instantiated.
\<close>

definition example_source :: string where
  "example_source =
     ''// SPDX-License-Identifier: MIT'' @ [CHR 0x0A] @ ''pragma solidity 0.8.20;''
       @ [CHR 0x0A] @ ''contract SimpleStorage {}''"

text \<open>
  A compiler that compiles it, and one that reports a syntax error instead.  The
  bytecode objects of the compiler's output are bare hexadecimal, without \<^verbatim>\<open>0x\<close>,
  and the compile script writes them to the artifact and to the settings as they are.
\<close>

definition example_compiler :: compiler where
  "example_compiler =
     \<lparr>solc_version = Inr ''0.8.20+commit.a1b79de6.Emscripten.clang'',
      solc_compile = (\<lambda>file src.
        Inr \<lparr>errors = None,
             contracts = Some [(''SimpleStorage.sol'',
               [(''SimpleStorage'',
                 \<lparr>co_abi = [AbiItem ''constructor'' []], co_bytecode = ''60806040'',
                  co_deployedBytecode = ''6080'', co_metadata = ''{}''\<rparr>)])]\<rparr>)\<rparr>"

definition failing_compiler :: compiler where
  "failing_compiler =
     example_compiler\<lparr>solc_compile := (\<lambda>file src.
        Inr \<lparr>errors = Some [\<lparr>severity = ''error'',
                               formattedMessage = ''ParserError: Expected pragma''\<rparr>],
             contracts = None\<rparr>)\<rparr>"

definition example_settings :: compilation_settings where
  "example_settings =
     \<lparr>set_contractName = ''SimpleStorage'', solcVersion = ''0.8.20+commit.a1b79de6'',
      optimization_enabled = True, optimization_runs = 200, pragma = ''0.8.20'',
      license = ''MIT'', deployedBytecode = ''6080'', compilationTimestamp = 0\<rparr>"

definition example_artifact :: artifact where
  "example_artifact =
     \<lparr>art_contractName = ''SimpleStorage'',
      abi = [AbiItem ''constructor'' []],
      bytecode = ''60806040'', art_deployedBytecode = ''6080'', metadata = ''{}''\<rparr>"

definition example_deployment :: deployment where
  "example_deployment =
     \<lparr>contractName = ''SimpleStorage'', contractAddress = ''0xC0FFEE'',
      deploymentTx = ''0xDEC0DE'', deployer = ''0xF00D'', network = ''bsc-testnet'',
      chainId = 97, timestamp = 0, constructorArgs = [], constructorTypes = [],
      encodedConstructorArgs = [], verification = None\<rparr>"

definition example_world :: world where
  "example_world =
     \<lparr>clock = 0,
      artifact_files = [''SimpleStorage'' \<mapsto> example_artifact],
      settings_file = Some example_settings,
      deployment_files = [''bsc-testnet'' \<mapsto> example_deployment],
      public_deployment_files = [''bsc-testnet'' \<mapsto> example_deployment],
      contract_sources = [''SimpleStorage.sol'' \<mapsto> example_source],
      contracts_dir = Some [''README.md'', ''SimpleStorage.sol''],
      poll_script = [], fs_faults = [], trace = []\<rparr>"

text \<open>
  The same project compiled by a compiler whose version string carries no commit hash
  (the fallback of \<^verbatim>\<open>getCompilerVersion\<close>), with an explorer that reports the
  contract verified at the first status check.
\<close>

definition semver_settings :: compilation_settings where
  "semver_settings = example_settings\<lparr>solcVersion := ''0.8.20''\<rparr>"

definition semver_world :: world where
  "semver_world =
     example_world\<lparr>settings_file := Some semver_settings,
                   poll_script := [Result ''Pass - Verified'']\<rparr>"

definition example_process :: process where
  "example_process =
     \<lparr>argv = [''node'', ''script.js''],
      penv = [''PRIVATE_KEY'' \<mapsto> ''0xKEY'', ''BSCSCAN_API_KEY'' \<mapsto> ''APIKEY'']\<rparr>"

text \<open>
  A chain and an explorer that answer every request: balance \<open>funds\<close>, chain 97,
  gas estimate 21000, live code \<open>live\<close>, and a submission accepted with GUID
  \<^verbatim>\<open>abc123guid\<close>.
\<close>

definition example_services :: "int \<Rightarrow> string \<Rightarrow> services" where
  "example_services funds live =
     \<lparr>walletAddress = (\<lambda>key. Inr ''0xF00D''),
      getBalance = (\<lambda>url addr. Inr funds),
      getNetwork = (\<lambda>url. Inr 97),
      getDeployTransaction = (\<lambda>a args. Inr (bytecode a)),
      estimateGas = (\<lambda>url from data. Inr 21000),
      sendDeploy = (\<lambda>url from args gas. Inr (''0xDEC0DE'', ''0xC0FFEE'')),
      waitForDeployment = (\<lambda>url tx. Inr ()),
      abiEncode = (\<lambda>types args. Inr ''0x''),
      getCode = (\<lambda>url addr. Inr live),
      verifysourcecode = (\<lambda>url pl.
        Inr \<lparr>resp_status = ''1'', resp_message = ''OK'', resp_result = ''abc123guid''\<rparr>)\<rparr>"

text \<open>
  Ways for the sample deployment to go wrong: a contract that was never compiled, a
  network without RPC URL, no private key, and a chain that reverts the transaction.
\<close>

definition missing_contract_process :: process where
  "missing_contract_process = example_process\<lparr>argv := [''node'', ''deploy.js'', ''Missing'']\<rparr>"

definition ethereum_process :: process where
  "ethereum_process =
     example_process\<lparr>argv := [''node'', ''deploy.js'', ''SimpleStorage'', ''ethereum'']\<rparr>"

definition keyless_process :: process where
  "keyless_process = example_process\<lparr>penv := Map.empty\<rparr>"

definition reverting_services :: services where
  "reverting_services =
     (example_services 1 ''0x6080'')
       \<lparr>waitForDeployment := (\<lambda>url tx. Inl (''transaction execution reverted'', ''CALL_EXCEPTION''))\<rparr>"

text \<open>
  The sample project with an explorer that reports the contract verified at the first
  status check.
\<close>

definition answered_world :: world where
  "answered_world = example_world\<lparr>poll_script := [Result ''Pass - Verified'']\<rparr>"

text \<open>
  The sample project after an earlier run has verified the contract, with an explorer that
  now answers the status check with a failure.
\<close>

definition verified_deployment :: deployment where
  "verified_deployment =
     example_deployment\<lparr>verification := Some
       \<lparr>status = Verified, guid = Some ''abc123guid'', submittedAt = Some 0,
        verifiedAt = Some 9000, compilerVersion = Some ''0.8.20+commit.a1b79de6'',
        explorerUrl = None, failureReason = None\<rparr>\<rparr>"

definition verified_world :: world where
  "verified_world =
     example_world\<lparr>deployment_files := [''bsc-testnet'' \<mapsto> verified_deployment],
                   poll_script := [Result ''Fail - Unable to verify'']\<rparr>"

section \<open>String search\<close>

lemma str_includes_sublist: "str_includes hay needle \<longleftrightarrow> sublist needle hay"
  by (induction hay) (auto simp: sublist_Cons_right)

lemma str_includes_append: "str_includes (pre @ needle @ post) needle"
  by (simp add: str_includes_sublist)

lemma str_slice_0x: "str_slice 2 (''0x'' @ body) = body"
  by (simp add: str_slice_def)

section \<open>License codes\<close>

lemma getLicenseType_listed:
  "getLicenseType ''MIT'' = JStr ''3''"
  "getLicenseType ''GPL-3.0'' = JStr ''9''"
  "getLicenseType ''Apache-2.0'' = JStr ''2''"
  "getLicenseType ''BSD-3-Clause'' = JStr ''8''"
  "getLicenseType ''Unlicense'' = JStr ''12''"
  by (simp_all add: getLicenseType_def get_property_def license_types_def js_or_def)

lemma getLicenseType_unknown:
  assumes "lic \<notin> fst ` set license_types"
    and "lic \<notin> set object_prototype_keys"
  shows "getLicenseType lic = JStr ''3''"
proof -
  from assms(1) have "map_of license_types lic = None"
    by (simp add: map_of_eq_None_iff)
  with assms(2) show ?thesis
    by (simp add: getLicenseType_def get_property_def js_or_def)
qed

text \<open>
  C8.  The mapping is meant to send every unknown license to the MIT code \<open>''3''\<close>
  (the source says "Default to MIT").  At the license string \<open>''constructor''\<close>,
  which is not one of the five listed names, the lookup finds the property that the table
  inherits from \<^verbatim>\<open>Object.prototype\<close>; the value is truthy, so the default is not
  taken and the result is not a string at all.  The compile script produces this license
  string from a source file whose SPDX line names it, and the payload sent to the
  explorer then carries the text of the function.
\<close>

theorem getLicenseType_constructor:
  "getLicenseType ''constructor'' = JBuiltin ''constructor''
   \<and> getLicenseType ''constructor'' \<noteq> JStr ''3''
   \<and> ''constructor'' \<notin> fst ` set license_types
   \<and> extract_license (''// SPDX-License-Identifier: constructor'' @ [CHR 0x0A]) = ''constructor''
   \<and> js_to_string (getLicenseType ''constructor'') = ''function Object() { [native code] }''"
  by (simp add: getLicenseType_def get_property_def license_types_def js_or_def
      object_prototype_keys_def extract_license_def trim_def js_space_def
      line_terminator_def)

section \<open>Gas limit\<close>



text \<open>
  The limit is the floor, not the ceiling: an estimate of 1 gets the limit 1, while
  \<open>\<lceil>1.2\<rceil> = 2\<close>; an estimate of 21001 gets 25201, while \<open>\<lceil>25201.2\<rceil> = 25202\<close>.
\<close>

lemma gasLimit_is_not_ceiling: "gasLimit 1 = Some 1" "gasLimit 21001 = Some 25201"
  by (simp_all add: gasLimit_def bigint_div_def)

section \<open>The write-back of a verification status\<close>

lemmas io_defs = io_bind_def io_catch_def io_effect_def io_return_def io_throw_def

lemmas store_defs =
  readDeployment_def writeDeployment_def read_file_def write_file_def next_fault_def
  emit_def console_warn_def

lemma updateVerificationStatus_total: "fst (updateVerificationStatus net st reason w) = Inr ()"
  by (simp add: updateVerificationStatus_def io_defs store_defs
      split: list.splits option.splits)

lemma storeVerificationDetails_total:
  "fst (storeVerificationDetails net dep gid settings w) = Inr ()"
  by (simp add: storeVerificationDetails_def io_defs store_defs
      split: list.splits option.splits)

lemma update_then:
  "io_bind (updateVerificationStatus net st reason) k w
   = k () (snd (updateVerificationStatus net st reason w))"
  using updateVerificationStatus_total [of net st reason w]
  by (cases "updateVerificationStatus net st reason w") (simp add: io_bind_def)

lemma update_healthy:
  assumes "fs_faults w = []" and "deployment_files w net = Some d"
  shows "snd (updateVerificationStatus net st reason w) =
         w\<lparr>deployment_files := (deployment_files w)(net \<mapsto> set_status st reason (clock w) d),
           trace := trace w @ [ReadFile (deployment_path net), WriteFile (deployment_path net)]\<rparr>"
  using assms by (simp add: updateVerificationStatus_def io_defs store_defs)

lemma update_trace:
  "\<exists>tail. trace (snd (updateVerificationStatus net st reason w)) = trace w @ tail
          \<and> list_all storage_event tail"
  by (auto simp add: updateVerificationStatus_def io_defs store_defs
      split: list.splits option.splits)

lemma update_files:
  "deployment_files (snd (updateVerificationStatus net st reason w)) = deployment_files w
   \<or> (\<exists>d v. deployment_files (snd (updateVerificationStatus net st reason w))
               = (deployment_files w)(net \<mapsto> d)
            \<and> verification d = Some v \<and> status v = st)"
  by (auto simp add: updateVerificationStatus_def io_defs store_defs set_status_def
      split: list.splits option.splits)

lemma update_sel:
  "poll_script (snd (updateVerificationStatus net st reason w)) = poll_script w"
  "clock (snd (updateVerificationStatus net st reason w)) = clock w"
  by (auto simp add: updateVerificationStatus_def io_defs store_defs
      split: list.splits option.splits)

lemma update_healthy_obs:
  assumes "fs_faults w = []" and "deployment_files w net = Some d"
  shows "map_option status (persisted (snd (updateVerificationStatus net st reason w)) net)
         = Some st"
    and "map_option failureReason
           (persisted (snd (updateVerificationStatus net st reason w)) net) = Some reason"
    and "trace (snd (updateVerificationStatus net st reason w))
         = trace w @ [ReadFile (deployment_path net), WriteFile (deployment_path net)]"
  using assms by (simp_all add: update_healthy persisted_def set_status_def)

section \<open>The polling loop\<close>

lemma poll_rounds_Suc: "poll_rounds (Suc n) url = Sleep 3000 # HttpGet url # poll_rounds n url"
  by (simp add: poll_rounds_def)

lemma poll_rounds_0: "poll_rounds 0 url = []"
  by (simp add: poll_rounds_def)

lemma poll_rounds_add: "poll_rounds m url @ poll_rounds n url = poll_rounds (m + n) url"
  by (simp add: poll_rounds_def replicate_add)

lemma after_rounds_0: "poll_script w = rest \<Longrightarrow> after_rounds 0 url rest w = w"
  by (auto simp add: after_rounds_def poll_rounds_0)

lemma after_rounds_Suc:
  "after_rounds n url rest (after_rounds (Suc 0) url mid w) = after_rounds (Suc n) url rest w"
  by (simp add: after_rounds_def poll_rounds_Suc poll_rounds_0)

lemma after_rounds_sel [simp]:
  "trace (after_rounds n url rest w) = trace w @ poll_rounds n url"
  "clock (after_rounds n url rest w) = clock w + 3000 * n"
  "poll_script (after_rounds n url rest w) = rest"
  "fs_faults (after_rounds n url rest w) = fs_faults w"
  "deployment_files (after_rounds n url rest w) = deployment_files w"
  by (simp_all add: after_rounds_def)

lemma fetch_after_sleep:
  assumes "poll_script w = r # rest"
  shows "fetch_status url (sleep 3000 w) =
         (case r of Result res \<Rightarrow> (Inr (Some res), after_rounds (Suc 0) url rest w)
          | NoResult \<Rightarrow> (Inr None, after_rounds (Suc 0) url rest w)
          | NetworkError m \<Rightarrow> (Inl (HttpFailed m), after_rounds (Suc 0) url rest w))"
  using assms
  by (simp add: sleep_def fetch_status_def emit_def after_rounds_def poll_rounds_Suc
      poll_rounds_0 split: http_reply.splits)

lemma fetch_after_sleep_cases:
  obtains (empty) "poll_script w = []"
      "fetch_status url (sleep 3000 w)
       = (Inl (HttpFailed ''fetch failed''), after_rounds (Suc 0) url [] w)"
    | (result) res rest where "poll_script w = Result res # rest"
      "fetch_status url (sleep 3000 w) = (Inr (Some res), after_rounds (Suc 0) url rest w)"
    | (noresult) rest where "poll_script w = NoResult # rest"
      "fetch_status url (sleep 3000 w) = (Inr None, after_rounds (Suc 0) url rest w)"
    | (neterr) m rest where "poll_script w = NetworkError m # rest"
      "fetch_status url (sleep 3000 w) = (Inl (HttpFailed m), after_rounds (Suc 0) url rest w)"
proof (cases "poll_script w")
  case Nil
  then have "fetch_status url (sleep 3000 w)
      = (Inl (HttpFailed ''fetch failed''), after_rounds (Suc 0) url [] w)"
    by (simp add: sleep_def fetch_status_def emit_def after_rounds_def poll_rounds_Suc
        poll_rounds_0)
  with Nil show ?thesis by (rule empty)
next
  case (Cons r rest)
  from fetch_after_sleep [OF Cons, of url] Cons result noresult neterr show ?thesis
    by (cases r) auto
qed

lemma Fail_not_Pass: "str_includes res ''Fail'' \<Longrightarrow> res \<noteq> ''Pass - Verified''"
  by auto

lemma pending_Pending: "pending_text ''Pending''"
  by (simp add: pending_text_def)

lemma poll_loop_pending_step:
  assumes "i < 20" and "pending_text res" and "poll_script w = Result res # rest"
  shows "poll_loop i url net w = poll_loop (Suc i) url net (after_rounds (Suc 0) url rest w)"
  using assms
  by (subst poll_loop.simps) (simp add: fetch_after_sleep pending_text_def)

lemma poll_loop_pending:
  assumes "\<forall>t\<in>set pending. pending_text t" and "i + length pending \<le> 20"
    and "poll_script w = map Result pending @ rest"
  shows "poll_loop i url net w =
         poll_loop (i + length pending) url net (after_rounds (length pending) url rest w)"
  using assms
proof (induction pending arbitrary: i w)
  case Nil
  then show ?case by (simp add: after_rounds_0)
next
  case (Cons t ts)
  let ?w1 = "after_rounds (Suc 0) url (map Result ts @ rest) w"
  from Cons.prems have "poll_loop i url net w = poll_loop (Suc i) url net ?w1"
    by (intro poll_loop_pending_step) auto
  also from Cons.prems have "\<dots> = poll_loop (Suc i + length ts) url net
           (after_rounds (length ts) url rest ?w1)"
    by (intro Cons.IH) (auto simp: after_rounds_def)
  finally show ?case by (simp add: after_rounds_Suc)
qed

lemma poll_loop_pass:
  assumes "i < 20" and "poll_script w = Result ''Pass - Verified'' # rest"
  shows "poll_loop i url net w
         = (Inr (), snd (updateVerificationStatus net Verified None
                           (after_rounds (Suc 0) url rest w)))"
  using assms
  by (subst poll_loop.simps) (simp add: fetch_after_sleep update_then io_return_def)

lemma poll_loop_fail:
  assumes "i < 20" and "poll_script w = Result res # rest" and "str_includes res ''Fail''"
  shows "poll_loop i url net w
         = (Inl (VerificationFailed res),
            snd (updateVerificationStatus net Failed (Some res)
                   (after_rounds (Suc 0) url rest w)))"
  using assms Fail_not_Pass [OF assms(3)]
  by (subst poll_loop.simps) (simp add: fetch_after_sleep update_then io_throw_def)

lemma poll_loop_timeout:
  "poll_loop 20 url net w
   = (Inl VerificationTimeout, snd (updateVerificationStatus net Timeout None w))"
  by (subst poll_loop.simps) (simp add: update_then io_throw_def)

lemma poll_loop_run:
  "\<exists>n rest. n \<le> 20 - i \<and> poll_ending net (after_rounds n url rest w) (poll_loop i url net w)"
proof (induction i url net w rule: poll_loop.induct)
  case (1 i url net w)
  show ?case
  proof (cases "i < 20")
    case False
    then have "poll_loop i url net w
        = (Inl VerificationTimeout,
           snd (updateVerificationStatus net Timeout None
                  (after_rounds 0 url (poll_script w) w)))"
      by (subst poll_loop.simps) (simp add: after_rounds_0 update_then io_throw_def)
    then have "poll_ending net (after_rounds 0 url (poll_script w) w) (poll_loop i url net w)"
      by (simp add: poll_ending_def)
    then show ?thesis by blast
  next
    case True
    have one: "\<exists>n rest. n \<le> 20 - i
        \<and> poll_ending net (after_rounds n url rest w) (poll_loop i url net w)"
      if "poll_ending net (after_rounds (Suc 0) url rest w) (poll_loop i url net w)" for rest
      using that True by (intro exI[of _ "Suc 0"] exI[of _ rest]) simp
    show ?thesis
    proof (cases rule: fetch_after_sleep_cases [of w url])
      case empty
      with True have "poll_loop i url net w
          = (Inl (HttpFailed ''fetch failed''), after_rounds (Suc 0) url [] w)"
        by (subst poll_loop.simps) simp
      then show ?thesis by (intro one) (simp add: poll_ending_def)
    next
      case (neterr m rest)
      with True have "poll_loop i url net w
          = (Inl (HttpFailed m), after_rounds (Suc 0) url rest w)"
        by (subst poll_loop.simps) simp
      then show ?thesis by (intro one) (simp add: poll_ending_def)
    next
      case (noresult rest)
      with True have "\<exists>m. poll_loop i url net w
          = (Inl (TypeError m), after_rounds (Suc 0) url rest w)"
        by (subst poll_loop.simps) simp
      then show ?thesis by (intro one) (auto simp add: poll_ending_def)
    next
      case (result res rest)
      let ?w2 = "after_rounds (Suc 0) url rest w"
      consider (pass) "res = ''Pass - Verified''"
        | (fail) "res \<noteq> ''Pass - Verified''" "str_includes res ''Fail''"
        | (pend) "res \<noteq> ''Pass - Verified''" "\<not> str_includes res ''Fail''"
        by blast
      then show ?thesis
      proof cases
        case pass
        with result True
        have "poll_loop i url net w
            = (Inr (), snd (updateVerificationStatus net Verified None ?w2))"
          by (simp add: poll_loop_pass)
        then show ?thesis by (intro one) (simp add: poll_ending_def)
      next
        case fail
        with result True
        have "poll_loop i url net w
            = (Inl (VerificationFailed res),
               snd (updateVerificationStatus net Failed (Some res) ?w2))"
          by (simp add: poll_loop_fail)
        with fail show ?thesis by (intro one) (auto simp add: poll_ending_def)
      next
        case pend
        from "1.IH" [OF True result(2) [symmetric] refl refl pend]
        obtain n rest' where n: "n \<le> 20 - Suc i"
          and e: "poll_ending net (after_rounds n url rest' ?w2) (poll_loop (Suc i) url net ?w2)"
          by blast
        have "poll_loop i url net w = poll_loop (Suc i) url net ?w2"
          using pend result True by (simp add: poll_loop_pending_step pending_text_def)
        with n e True show ?thesis
          by (intro exI[of _ "Suc n"] exI[of _ rest']) (simp add: after_rounds_Suc)
      qed
    qed
  qed
qed

lemma poll_ending_trace:
  assumes "poll_ending net w2 r"
  shows "\<exists>tail. trace (snd r) = trace w2 @ tail \<and> list_all storage_event tail"
  using assms update_trace [of net _ _ w2] unfolding poll_ending_def
  by (elim disjE exE conjE) auto

lemma update_trace_once:
  "\<exists>tail. trace (snd (updateVerificationStatus net st reason w)) = trace w @ tail
          \<and> list_all storage_event tail \<and> length (filter is_write tail) \<le> 1"
  by (auto simp add: updateVerificationStatus_def io_defs store_defs
      split: list.splits option.splits)

lemma poll_ending_trace_once:
  assumes "poll_ending net w2 r"
  shows "\<exists>tail. trace (snd r) = trace w2 @ tail \<and> list_all storage_event tail
           \<and> length (filter is_write tail) \<le> 1"
  using assms update_trace_once [of net _ _ w2] unfolding poll_ending_def
  by (elim disjE exE conjE) auto

lemma poll_ending_files:
  assumes "poll_ending net w2 r"
  shows "deployment_files (snd r) = deployment_files w2
         \<or> (\<exists>d v. deployment_files (snd r) = (deployment_files w2)(net \<mapsto> d)
                \<and> verification d = Some v \<and> terminal (status v))"
  using assms unfolding poll_ending_def
proof (elim disjE exE conjE)
  assume "r = (Inr (), snd (updateVerificationStatus net Verified None w2))"
  with update_files [of net Verified None w2] show ?thesis by auto
next
  fix t
  assume "r = (Inl (VerificationFailed t),
               snd (updateVerificationStatus net Failed (Some t) w2))"
  with update_files [of net Failed "Some t" w2] show ?thesis by auto
next
  assume "r = (Inl VerificationTimeout, snd (updateVerificationStatus net Timeout None w2))"
  with update_files [of net Timeout None w2] show ?thesis by auto
qed auto

lemma poll_verified:
  assumes "fs_faults w = []" and "deployment_files w net = Some d"
    and "poll_script w = map Result pending @ Result ''Pass - Verified'' # rest"
    and "length pending < 20" and "\<forall>t\<in>set pending. pending_text t"
  shows "fst (poll_loop 0 url net w) = Inr ()"
    and "map_option status (persisted (snd (poll_loop 0 url net w)) net) = Some Verified"
    and "trace (snd (poll_loop 0 url net w))
         = trace w @ poll_rounds (Suc (length pending)) url
             @ [ReadFile (deployment_path net), WriteFile (deployment_path net)]"
    and "poll_script (snd (poll_loop 0 url net w)) = rest"
proof -
  let ?w1 = "after_rounds (length pending) url (Result ''Pass - Verified'' # rest) w"
  let ?w2 = "after_rounds (Suc 0) url rest ?w1"
  let ?end = "snd (updateVerificationStatus net Verified None ?w2)"
  from assms have "poll_loop 0 url net w = poll_loop (0 + length pending) url net ?w1"
    by (intro poll_loop_pending) auto
  also from assms have "\<dots> = (Inr (), ?end)"
    by (intro poll_loop_pass) auto
  finally have r: "poll_loop 0 url net w = (Inr (), ?end)" .
  have h: "fs_faults ?w2 = []" "deployment_files ?w2 net = Some d"
    using assms by simp_all
  show "fst (poll_loop 0 url net w) = Inr ()" by (simp add: r)
  show "map_option status (persisted (snd (poll_loop 0 url net w)) net) = Some Verified"
    by (simp add: r update_healthy_obs(1) [OF h])
  show "trace (snd (poll_loop 0 url net w))
         = trace w @ poll_rounds (Suc (length pending)) url
             @ [ReadFile (deployment_path net), WriteFile (deployment_path net)]"
    by (simp add: r update_healthy_obs(3) [OF h] poll_rounds_add)
  show "poll_script (snd (poll_loop 0 url net w)) = rest"
    by (simp add: r update_sel)
qed

lemma poll_failed:
  assumes "fs_faults w = []" and "deployment_files w net = Some d"
    and "poll_script w = map Result pending @ Result res # rest"
    and "length pending < 20" and "\<forall>t\<in>set pending. pending_text t"
    and "str_includes res ''Fail''"
  shows "fst (poll_loop 0 url net w) = Inl (VerificationFailed res)"
    and "map_option status (persisted (snd (poll_loop 0 url net w)) net) = Some Failed"
    and "map_option failureReason (persisted (snd (poll_loop 0 url net w)) net) = Some (Some res)"
    and "trace (snd (poll_loop 0 url net w))
         = trace w @ poll_rounds (Suc (length pending)) url
             @ [ReadFile (deployment_path net), WriteFile (deployment_path net)]"
    and "poll_script (snd (poll_loop 0 url net w)) = rest"
proof -
  let ?w1 = "after_rounds (length pending) url (Result res # rest) w"
  let ?w2 = "after_rounds (Suc 0) url rest ?w1"
  let ?end = "snd (updateVerificationStatus net Failed (Some res) ?w2)"
  from assms have "poll_loop 0 url net w = poll_loop (0 + length pending) url net ?w1"
    by (intro poll_loop_pending) auto
  also from assms have "\<dots> = (Inl (VerificationFailed res), ?end)"
    by (intro poll_loop_fail) auto
  finally have r: "poll_loop 0 url net w = (Inl (VerificationFailed res), ?end)" .
  have h: "fs_faults ?w2 = []" "deployment_files ?w2 net = Some d"
    using assms by simp_all
  show "fst (poll_loop 0 url net w) = Inl (VerificationFailed res)" by (simp add: r)
  show "map_option status (persisted (snd (poll_loop 0 url net w)) net) = Some Failed"
    by (simp add: r update_healthy_obs(1) [OF h])
  show "map_option failureReason (persisted (snd (poll_loop 0 url net w)) net) = Some (Some res)"
    by (simp add: r update_healthy_obs(2) [OF h])
  show "trace (snd (poll_loop 0 url net w))
         = trace w @ poll_rounds (Suc (length pending)) url
             @ [ReadFile (deployment_path net), WriteFile (deployment_path net)]"
    by (simp add: r update_healthy_obs(3) [OF h] poll_rounds_add)
  show "poll_script (snd (poll_loop 0 url net w)) = rest"
    by (simp add: r update_sel)
qed

lemma poll_timeout:
  assumes "fs_faults w = []" and "deployment_files w net = Some d"
    and "poll_script w = map Result pending @ rest"
    and "length pending = 20" and "\<forall>t\<in>set pending. pending_text t"
  shows "fst (poll_loop 0 url net w) = Inl VerificationTimeout"
    and "map_option status (persisted (snd (poll_loop 0 url net w)) net) = Some Timeout"
    and "trace (snd (poll_loop 0 url net w))
         = trace w @ poll_rounds 20 url
             @ [ReadFile (deployment_path net), WriteFile (deployment_path net)]"
    and "poll_script (snd (poll_loop 0 url net w)) = rest"
proof -
  let ?w1 = "after_rounds (length pending) url rest w"
  let ?end = "snd (updateVerificationStatus net Timeout None ?w1)"
  from assms have "poll_loop 0 url net w = poll_loop (0 + length pending) url net ?w1"
    by (intro poll_loop_pending) auto
  also from assms have "\<dots> = (Inl VerificationTimeout, ?end)"
    by (simp add: poll_loop_timeout)
  finally have r: "poll_loop 0 url net w = (Inl VerificationTimeout, ?end)" .
  have h: "fs_faults ?w1 = []" "deployment_files ?w1 net = Some d"
    using assms by simp_all
  show "fst (poll_loop 0 url net w) = Inl VerificationTimeout" by (simp add: r)
  show "map_option status (persisted (snd (poll_loop 0 url net w)) net) = Some Timeout"
    by (simp add: r update_healthy_obs(1) [OF h])
  show "trace (snd (poll_loop 0 url net w))
         = trace w @ poll_rounds 20 url
             @ [ReadFile (deployment_path net), WriteFile (deployment_path net)]"
    using update_healthy_obs(3) [OF h, of Timeout None] assms(4) by (simp add: r)
  show "poll_script (snd (poll_loop 0 url net w)) = rest"
    by (simp add: r update_sel)
qed

lemma poll_outcome_pass:
  assumes "poll_script w = map Result pending @ Result ''Pass - Verified'' # rest"
    and "length pending < 20" and "\<forall>t\<in>set pending. pending_text t"
  shows "fst (poll_loop 0 url net w) = Inr ()"
proof -
  let ?w1 = "after_rounds (length pending) url (Result ''Pass - Verified'' # rest) w"
  from assms have "poll_loop 0 url net w = poll_loop (0 + length pending) url net ?w1"
    by (intro poll_loop_pending) auto
  with assms show ?thesis by (simp add: poll_loop_pass)
qed

lemma poll_outcome_fail:
  assumes "poll_script w = map Result pending @ Result res # rest"
    and "length pending < 20" and "\<forall>t\<in>set pending. pending_text t"
    and "str_includes res ''Fail''"
  shows "fst (poll_loop 0 url net w) = Inl (VerificationFailed res)"
proof -
  let ?w1 = "after_rounds (length pending) url (Result res # rest) w"
  from assms have "poll_loop 0 url net w = poll_loop (0 + length pending) url net ?w1"
    by (intro poll_loop_pending) auto
  with assms show ?thesis by (simp add: poll_loop_fail)
qed

lemma poll_outcome_timeout:
  assumes "poll_script w = map Result pending @ rest"
    and "length pending = 20" and "\<forall>t\<in>set pending. pending_text t"
  shows "fst (poll_loop 0 url net w) = Inl VerificationTimeout"
proof -
  let ?w1 = "after_rounds (length pending) url rest w"
  from assms have "poll_loop 0 url net w = poll_loop (0 + length pending) url net ?w1"
    by (intro poll_loop_pending) auto
  with assms show ?thesis by (simp add: poll_loop_timeout)
qed

lemma poll_loop_outcome:
  "poll_script w' = poll_script w \<Longrightarrow>
   fst (poll_loop i url net w') = fst (poll_loop i url net w)"
proof (induction i url net w arbitrary: w' rule: poll_loop.induct)
  case (1 i url net w)
  show ?case
  proof (cases "i < 20")
    case False
    then show ?thesis
      by (subst (1 2) poll_loop.simps) (simp add: update_then io_throw_def)
  next
    case True
    show ?thesis
    proof (cases rule: fetch_after_sleep_cases [of w url])
      case empty
      with "1.prems" have "poll_script w' = []" by simp
      then have "fetch_status url (sleep 3000 w')
          = (Inl (HttpFailed ''fetch failed''), after_rounds (Suc 0) url [] w')"
        by (cases rule: fetch_after_sleep_cases [of w' url]) simp_all
      with empty True show ?thesis
        by (subst (1 2) poll_loop.simps) simp
    next
      case (neterr m rest)
      with "1.prems" have "poll_script w' = NetworkError m # rest" by simp
      from fetch_after_sleep [OF this, of url] neterr True show ?thesis
        by (subst (1 2) poll_loop.simps) simp
    next
      case (noresult rest)
      with "1.prems" have "poll_script w' = NoResult # rest" by simp
      from fetch_after_sleep [OF this, of url] noresult True show ?thesis
        by (subst (1 2) poll_loop.simps) simp
    next
      case (result res rest)
      with "1.prems" have s': "poll_script w' = Result res # rest" by simp
      consider (pass) "res = ''Pass - Verified''"
        | (fail) "res \<noteq> ''Pass - Verified''" "str_includes res ''Fail''"
        | (pend) "res \<noteq> ''Pass - Verified''" "\<not> str_includes res ''Fail''"
        by blast
      then show ?thesis
      proof cases
        case pass
        with result s' True show ?thesis by (simp add: poll_loop_pass)
      next
        case fail
        with result s' True show ?thesis by (simp add: poll_loop_fail)
      next
        case pend
        let ?w2 = "after_rounds (Suc 0) url rest w"
        let ?w2' = "after_rounds (Suc 0) url rest w'"
        have "fst (poll_loop (Suc i) url net ?w2') = fst (poll_loop (Suc i) url net ?w2)"
          by (rule "1.IH" [OF True result(2) [symmetric] refl refl pend]) simp
        moreover have "poll_loop i url net w = poll_loop (Suc i) url net ?w2"
          using pend result True by (simp add: poll_loop_pending_step pending_text_def)
        moreover have "poll_loop i url net w' = poll_loop (Suc i) url net ?w2'"
          using pend s' True by (simp add: poll_loop_pending_step pending_text_def)
        ultimately show ?thesis by simp
      qed
    qed
  qed
qed

lemma store_sel:
  "poll_script (snd (storeVerificationDetails net dep gid settings w)) = poll_script w"
  by (auto simp add: storeVerificationDetails_def io_defs store_defs
      split: list.splits option.splits)

lemma store_write_fault:
  assumes "fs_faults w = Some m # fs"
  shows "snd (storeVerificationDetails net dep gid settings w)
         = w\<lparr>fs_faults := fs,
             trace := trace w @ [WriteFile (deployment_path net),
               ConsoleWarn (''Warning: Could not store verification details: '' @ m)]\<rparr>"
  using assms by (simp add: storeVerificationDetails_def io_defs store_defs)

lemma update_read_fault:
  assumes "fs_faults w = Some m # fs"
  shows "snd (updateVerificationStatus net st reason w)
         = w\<lparr>fs_faults := fs,
             trace := trace w @ [ReadFile (deployment_path net),
               ConsoleWarn (''Warning: Could not update verification status: '' @ m)]\<rparr>"
  using assms by (simp add: updateVerificationStatus_def io_defs store_defs)

lemma update_write_fault:
  assumes "fs_faults w = None # Some m # fs" and "deployment_files w net = Some d"
  shows "snd (updateVerificationStatus net st reason w)
         = w\<lparr>fs_faults := fs,
             trace := trace w @ [ReadFile (deployment_path net), WriteFile (deployment_path net),
               ConsoleWarn (''Warning: Could not update verification status: '' @ m)]\<rparr>"
  using assms by (simp add: updateVerificationStatus_def io_defs store_defs)

text \<open>
  C1, as the code has it.  A run of the poller is at most 20 attempts, each a 3000 ms
  suspension followed by one status check, and after them only the write-back of a status:
  at most one write, the last thing the run does, and the deployment file is either left
  as it was or receives a terminal status.  With a readable deployment file and a working
  store, whatever status the file held before: on the replies Pending, Pending,
  Pass - Verified the run returns after exactly 3 attempts with \<open>Verified\<close> persisted;
  on 20 times Pending it ends after 20 attempts with \<open>Timeout\<close>; on a reply that
  contains Fail, reached after fewer than 20 pending replies, it stops at that attempt
  with \<open>Failed\<close> persisted and the raw reply as failure reason.  In each terminal case
  the replies that would follow are left untouched: within a run nothing follows a
  terminal status.
\<close>

theorem poller_state_machine:
  "let r = pollVerificationStatus apiUrl apiKey gid net w;
       url = status_url apiUrl apiKey gid;
       file = deployment_path net
   in (\<exists>n tail. n \<le> 20 \<and> trace (snd r) = trace w @ poll_rounds n url @ tail
          \<and> list_all storage_event tail \<and> length (filter is_write tail) \<le> 1)
    \<and> (deployment_files (snd r) = deployment_files w
        \<or> (\<exists>d v. deployment_files (snd r) = (deployment_files w)(net \<mapsto> d)
               \<and> verification d = Some v \<and> terminal (status v)))
    \<and> (fs_faults w = [] \<and> deployment_files w net \<noteq> None \<longrightarrow>
         (poll_script w = [Result ''Pending'', Result ''Pending'', Result ''Pass - Verified'']
           \<longrightarrow> fst r = Inr ()
             \<and> map_option status (persisted (snd r) net) = Some Verified
             \<and> trace (snd r) = trace w @ poll_rounds 3 url @ [ReadFile file, WriteFile file])
       \<and> (poll_script w = replicate 20 (Result ''Pending'')
           \<longrightarrow> fst r = Inl VerificationTimeout
             \<and> map_option status (persisted (snd r) net) = Some Timeout
             \<and> trace (snd r) = trace w @ poll_rounds 20 url @ [ReadFile file, WriteFile file])
       \<and> (\<forall>pending res rest.
             poll_script w = map Result pending @ Result res # rest
             \<and> length pending < 20 \<and> list_all pending_text pending
             \<and> str_includes res ''Fail''
           \<longrightarrow> fst r = Inl (VerificationFailed res)
             \<and> map_option status (persisted (snd r) net) = Some Failed
             \<and> map_option failureReason (persisted (snd r) net) = Some (Some res)
             \<and> trace (snd r) = trace w @ poll_rounds (Suc (length pending)) url
                                 @ [ReadFile file, WriteFile file]
             \<and> poll_script (snd r) = rest)
       \<and> (\<forall>pending rest.
             poll_script w = map Result pending @ Result ''Pass - Verified'' # rest
             \<and> length pending < 20 \<and> list_all pending_text pending
           \<longrightarrow> fst r = Inr ()
             \<and> map_option status (persisted (snd r) net) = Some Verified
             \<and> trace (snd r) = trace w @ poll_rounds (Suc (length pending)) url
                                 @ [ReadFile file, WriteFile file]
             \<and> poll_script (snd r) = rest))"
proof -
  let ?url = "status_url apiUrl apiKey gid"
  let ?r = "poll_loop 0 ?url net w"
  obtain n rest where n: "n \<le> 20" and e: "poll_ending net (after_rounds n ?url rest w) ?r"
    using poll_loop_run [of 0 net ?url w] by auto
  have shape: "\<exists>n tail. n \<le> 20 \<and> trace (snd ?r) = trace w @ poll_rounds n ?url @ tail
          \<and> list_all storage_event tail \<and> length (filter is_write tail) \<le> 1"
    using poll_ending_trace_once [OF e] n by auto
  have files: "deployment_files (snd ?r) = deployment_files w
        \<or> (\<exists>d v. deployment_files (snd ?r) = (deployment_files w)(net \<mapsto> d)
               \<and> verification d = Some v \<and> terminal (status v))"
    using poll_ending_files [OF e] by simp
  have scripted: "fst ?r = Inr ()
             \<and> map_option status (persisted (snd ?r) net) = Some Verified
             \<and> trace (snd ?r) = trace w @ poll_rounds 3 ?url
                 @ [ReadFile (deployment_path net), WriteFile (deployment_path net)]"
    if "fs_faults w = []" and "deployment_files w net = Some d"
      and "poll_script w = [Result ''Pending'', Result ''Pending'', Result ''Pass - Verified'']"
    for d
    using poll_verified [of w net d "[''Pending'', ''Pending'']" "[]" ?url] that
    by (simp add: pending_Pending numeral_3_eq_3)
  have timeout: "fst ?r = Inl VerificationTimeout
             \<and> map_option status (persisted (snd ?r) net) = Some Timeout
             \<and> trace (snd ?r) = trace w @ poll_rounds 20 ?url
                 @ [ReadFile (deployment_path net), WriteFile (deployment_path net)]"
    if "fs_faults w = []" and "deployment_files w net = Some d"
      and "poll_script w = replicate 20 (Result ''Pending'')"
    for d
    using poll_timeout [of w net d "replicate 20 ''Pending''" "[]" ?url] that
    by (simp add: pending_Pending)
  have failed: "fst ?r = Inl (VerificationFailed res)
             \<and> map_option status (persisted (snd ?r) net) = Some Failed
             \<and> map_option failureReason (persisted (snd ?r) net) = Some (Some res)
             \<and> trace (snd ?r) = trace w @ poll_rounds (Suc (length pending)) ?url
                 @ [ReadFile (deployment_path net), WriteFile (deployment_path net)]
             \<and> poll_script (snd ?r) = rest'"
    if "fs_faults w = []" and "deployment_files w net = Some d"
      and "poll_script w = map Result pending @ Result res # rest'"
      and "length pending < 20" and "list_all pending_text pending"
      and "str_includes res ''Fail''"
    for d pending res rest'
    using poll_failed [of w net d pending res rest' ?url] that
    by (simp add: list_all_iff)
  have verified: "fst ?r = Inr ()
             \<and> map_option status (persisted (snd ?r) net) = Some Verified
             \<and> trace (snd ?r) = trace w @ poll_rounds (Suc (length pending)) ?url
                 @ [ReadFile (deployment_path net), WriteFile (deployment_path net)]
             \<and> poll_script (snd ?r) = rest'"
    if "fs_faults w = []" and "deployment_files w net = Some d"
      and "poll_script w = map Result pending @ Result ''Pass - Verified'' # rest'"
      and "length pending < 20" and "list_all pending_text pending"
    for d pending rest'
    using poll_verified [of w net d pending rest' ?url] that
    by (simp add: list_all_iff)
  show ?thesis
    unfolding Let_def pollVerificationStatus_def
    using shape files scripted timeout failed verified by blast
qed

theorem poller_state_machine_witness:
  "fst (pollVerificationStatus (getApiUrl ''bsc-testnet'') (JStr ''APIKEY'') ''abc123guid''
          ''bsc-testnet''
          (example_world\<lparr>poll_script :=
             [Result ''Pending'', Result ''Pending'', Result ''Pass - Verified'']\<rparr>))
     = Inr ()
   \<and> map_option status
        (persisted
          (snd (pollVerificationStatus (getApiUrl ''bsc-testnet'') (JStr ''APIKEY'')
                  ''abc123guid'' ''bsc-testnet''
                  (example_world\<lparr>poll_script :=
                     [Result ''Pending'', Result ''Pending'', Result ''Pass - Verified'']\<rparr>)))
          ''bsc-testnet'')
     = Some Verified
   \<and> fst (pollVerificationStatus (getApiUrl ''bsc-testnet'') (JStr ''APIKEY'') ''abc123guid''
          ''bsc-testnet'' (example_world\<lparr>poll_script := replicate 20 (Result ''Pending'')\<rparr>))
     = Inl VerificationTimeout
   \<and> map_option status
        (persisted
          (snd (pollVerificationStatus (getApiUrl ''bsc-testnet'') (JStr ''APIKEY'')
                  ''abc123guid'' ''bsc-testnet''
                  (example_world\<lparr>poll_script := replicate 20 (Result ''Pending'')\<rparr>)))
          ''bsc-testnet'')
     = Some Timeout
   \<and> map_option failureReason
        (persisted
          (snd (pollVerificationStatus (getApiUrl ''bsc-testnet'') (JStr ''APIKEY'')
                  ''abc123guid'' ''bsc-testnet''
                  (example_world\<lparr>poll_script :=
                     [Result ''Pending'', Result ''Fail - Unable to verify'',
                      Result ''Pass - Verified'']\<rparr>)))
          ''bsc-testnet'')
     = Some (Some ''Fail - Unable to verify'')"
proof -
  let ?poll = "pollVerificationStatus (getApiUrl ''bsc-testnet'') (JStr ''APIKEY'')
                 ''abc123guid'' ''bsc-testnet''"
  let ?w1 = "example_world\<lparr>poll_script :=
               [Result ''Pending'', Result ''Pending'', Result ''Pass - Verified'']\<rparr>"
  let ?w2 = "example_world\<lparr>poll_script := replicate 20 (Result ''Pending'')\<rparr>"
  let ?w3 = "example_world\<lparr>poll_script :=
               [Result ''Pending'', Result ''Fail - Unable to verify'',
                Result ''Pass - Verified'']\<rparr>"
  have healthy: "fs_faults (example_world\<lparr>poll_script := s\<rparr>) = []"
    "deployment_files (example_world\<lparr>poll_script := s\<rparr>) ''bsc-testnet'' \<noteq> None" for s
    by (simp_all add: example_world_def)
  have "fst (?poll ?w1) = Inr ()
      \<and> map_option status (persisted (snd (?poll ?w1)) ''bsc-testnet'') = Some Verified"
    using poller_state_machine
      [of "getApiUrl ''bsc-testnet''" "JStr ''APIKEY''" "''abc123guid''" "''bsc-testnet''" ?w1]
      healthy
    by (simp add: Let_def)
  moreover
  have "fst (?poll ?w2) = Inl VerificationTimeout
      \<and> map_option status (persisted (snd (?poll ?w2)) ''bsc-testnet'') = Some Timeout"
    using poller_state_machine
      [of "getApiUrl ''bsc-testnet''" "JStr ''APIKEY''" "''abc123guid''" "''bsc-testnet''" ?w2]
      healthy
    by (simp add: Let_def)
  moreover
  have "\<forall>pending res rest.
          poll_script ?w3 = map Result pending @ Result res # rest
          \<and> length pending < 20 \<and> list_all pending_text pending \<and> str_includes res ''Fail''
          \<longrightarrow> map_option failureReason (persisted (snd (?poll ?w3)) ''bsc-testnet'')
                = Some (Some res)"
    using poller_state_machine
      [of "getApiUrl ''bsc-testnet''" "JStr ''APIKEY''" "''abc123guid''" "''bsc-testnet''" ?w3]
      healthy
    by (simp add: Let_def)
  from this [rule_format, of "[''Pending'']" "''Fail - Unable to verify''"
      "[Result ''Pass - Verified'']"]
  have "map_option failureReason (persisted (snd (?poll ?w3)) ''bsc-testnet'')
        = Some (Some ''Fail - Unable to verify'')"
    by (simp add: pending_Pending)
  ultimately show ?thesis by simp
qed

text \<open>
  C1 as the specification words it (no transition ever leaves a terminal state) does not
  hold: the write-back sets the status without looking at the stored one.  When the
  record already holds \<open>Verified\<close> from an earlier run and the explorer now answers
  with a failure, the run replaces \<open>Verified\<close> by \<open>Failed\<close>.
\<close>

theorem terminal_status_overwritten_counterexample:
  "map_option status (persisted verified_world ''bsc-testnet'') = Some Verified
   \<and> terminal Verified
   \<and> fst (pollVerificationStatus (getApiUrl ''bsc-testnet'') (JStr ''APIKEY'') ''abc123guid''
            ''bsc-testnet'' verified_world)
     = Inl (VerificationFailed ''Fail - Unable to verify'')
   \<and> map_option status
        (persisted
          (snd (pollVerificationStatus (getApiUrl ''bsc-testnet'') (JStr ''APIKEY'')
                  ''abc123guid'' ''bsc-testnet'' verified_world))
          ''bsc-testnet'')
     = Some Failed"
proof -
  have "fs_faults verified_world = []"
    and "deployment_files verified_world ''bsc-testnet'' = Some verified_deployment"
    and "poll_script verified_world = map Result [] @ Result ''Fail - Unable to verify'' # []"
    and "length ([] :: string list) < 20" and "\<forall>t\<in>set ([] :: string list). pending_text t"
    and "str_includes ''Fail - Unable to verify'' ''Fail''"
    by (simp_all add: verified_world_def example_world_def)
  from poll_failed [OF this]
  show ?thesis
    by (simp add: pollVerificationStatus_def persisted_def verified_world_def
        verified_deployment_def example_world_def)
qed

text \<open>
  C7.  Both write-backs of the verification status (the initial \<^verbatim>\<open>submitted\<close> record
  and the poller's transitions) always return normally.  When the storage call fails, the
  files stay as they were and one \<^verbatim>\<open>console.warn\<close> line is printed.  The result of
  the poller is a function of the explorer's replies alone: two worlds with the same
  replies give the same result whatever their files and storage faults are, so a verified
  run reports success and a failed or timed-out run reports its own failure whether or
  not the record could be updated.
\<close>

theorem write_back_failure_keeps_outcome:
  "fst (storeVerificationDetails net dep gid settings w) = Inr ()
   \<and> fst (updateVerificationStatus net st reason w) = Inr ()
   \<and> (\<forall>m fs. fs_faults w = Some m # fs \<longrightarrow>
         snd (storeVerificationDetails net dep gid settings w)
           = w\<lparr>fs_faults := fs,
               trace := trace w @ [WriteFile (deployment_path net),
                 ConsoleWarn (''Warning: Could not store verification details: '' @ m)]\<rparr>
         \<and> snd (updateVerificationStatus net st reason w)
           = w\<lparr>fs_faults := fs,
               trace := trace w @ [ReadFile (deployment_path net),
                 ConsoleWarn (''Warning: Could not update verification status: '' @ m)]\<rparr>)
   \<and> (\<forall>m fs. fs_faults w = None # Some m # fs \<and> deployment_files w net \<noteq> None \<longrightarrow>
         snd (updateVerificationStatus net st reason w)
           = w\<lparr>fs_faults := fs,
               trace := trace w @ [ReadFile (deployment_path net),
                 WriteFile (deployment_path net),
                 ConsoleWarn (''Warning: Could not update verification status: '' @ m)]\<rparr>)
   \<and> (\<forall>w'. poll_script w' = poll_script w \<longrightarrow>
         fst (pollVerificationStatus apiUrl apiKey gid net w')
           = fst (pollVerificationStatus apiUrl apiKey gid net w))
   \<and> poll_script (snd (storeVerificationDetails net dep gid settings w)) = poll_script w
   \<and> (\<forall>pending rest.
         poll_script w = map Result pending @ Result ''Pass - Verified'' # rest
         \<and> length pending < 20 \<and> list_all pending_text pending
         \<longrightarrow> fst (pollVerificationStatus apiUrl apiKey gid net w) = Inr ())
   \<and> (\<forall>pending res rest.
         poll_script w = map Result pending @ Result res # rest
         \<and> length pending < 20 \<and> list_all pending_text pending \<and> str_includes res ''Fail''
         \<longrightarrow> fst (pollVerificationStatus apiUrl apiKey gid net w)
               = Inl (VerificationFailed res))
   \<and> (\<forall>pending rest.
         poll_script w = map Result pending @ rest
         \<and> length pending = 20 \<and> list_all pending_text pending
         \<longrightarrow> fst (pollVerificationStatus apiUrl apiKey gid net w) = Inl VerificationTimeout)"
proof (intro conjI allI impI)
  show "fst (storeVerificationDetails net dep gid settings w) = Inr ()"
    by (rule storeVerificationDetails_total)
  show "fst (updateVerificationStatus net st reason w) = Inr ()"
    by (rule updateVerificationStatus_total)
  show "poll_script (snd (storeVerificationDetails net dep gid settings w)) = poll_script w"
    by (rule store_sel)
next
  fix m fs assume "fs_faults w = Some m # fs"
  then show "snd (storeVerificationDetails net dep gid settings w)
           = w\<lparr>fs_faults := fs,
               trace := trace w @ [WriteFile (deployment_path net),
                 ConsoleWarn (''Warning: Could not store verification details: '' @ m)]\<rparr>"
    and "snd (updateVerificationStatus net st reason w)
           = w\<lparr>fs_faults := fs,
               trace := trace w @ [ReadFile (deployment_path net),
                 ConsoleWarn (''Warning: Could not update verification status: '' @ m)]\<rparr>"
    by (simp_all add: store_write_fault update_read_fault)
next
  fix m fs assume "fs_faults w = None # Some m # fs \<and> deployment_files w net \<noteq> None"
  then show "snd (updateVerificationStatus net st reason w)
           = w\<lparr>fs_faults := fs,
               trace := trace w @ [ReadFile (deployment_path net),
                 WriteFile (deployment_path net),
                 ConsoleWarn (''Warning: Could not update verification status: '' @ m)]\<rparr>"
    by (auto simp add: update_write_fault)
next
  fix w' :: world assume "poll_script w' = poll_script w"
  then show "fst (pollVerificationStatus apiUrl apiKey gid net w')
           = fst (pollVerificationStatus apiUrl apiKey gid net w)"
    unfolding pollVerificationStatus_def by (rule poll_loop_outcome)
next
  fix pending rest
  assume "poll_script w = map Result pending @ Result ''Pass - Verified'' # rest
         \<and> length pending < 20 \<and> list_all pending_text pending"
  then show "fst (pollVerificationStatus apiUrl apiKey gid net w) = Inr ()"
    unfolding pollVerificationStatus_def
    by (intro poll_outcome_pass [of w pending rest]) (simp_all add: list_all_iff)
next
  fix pending res rest
  assume "poll_script w = map Result pending @ Result res # rest
         \<and> length pending < 20 \<and> list_all pending_text pending \<and> str_includes res ''Fail''"
  then show "fst (pollVerificationStatus apiUrl apiKey gid net w)
               = Inl (VerificationFailed res)"
    unfolding pollVerificationStatus_def
    by (intro poll_outcome_fail [of w pending res rest]) (simp_all add: list_all_iff)
next
  fix pending rest
  assume "poll_script w = map Result pending @ rest
         \<and> length pending = 20 \<and> list_all pending_text pending"
  then show "fst (pollVerificationStatus apiUrl apiKey gid net w) = Inl VerificationTimeout"
    unfolding pollVerificationStatus_def
    by (intro poll_outcome_timeout [of w pending rest]) (simp_all add: list_all_iff)
qed

theorem write_back_failure_keeps_outcome_witness:
  "fst (storeVerificationDetails ''bsc-testnet'' example_deployment ''abc123guid''
          example_settings
          (example_world\<lparr>poll_script := [Result ''Pending'', Result ''Pass - Verified''],
             fs_faults := [Some ''EROFS: read-only file system'']\<rparr>)) = Inr ()
   \<and> trace (snd (storeVerificationDetails ''bsc-testnet'' example_deployment ''abc123guid''
          example_settings
          (example_world\<lparr>poll_script := [Result ''Pending'', Result ''Pass - Verified''],
             fs_faults := [Some ''EROFS: read-only file system'']\<rparr>)))
       = [WriteFile ''deployments/bsc-testnet.json'',
          ConsoleWarn
            ''Warning: Could not store verification details: EROFS: read-only file system'']
   \<and> trace (snd (updateVerificationStatus ''bsc-testnet'' Verified None
          (example_world\<lparr>fs_faults := [None, Some ''EROFS: read-only file system'']\<rparr>)))
       = [ReadFile ''deployments/bsc-testnet.json'', WriteFile ''deployments/bsc-testnet.json'',
          ConsoleWarn
            ''Warning: Could not update verification status: EROFS: read-only file system'']
   \<and> deployment_files (snd (updateVerificationStatus ''bsc-testnet'' Verified None
          (example_world\<lparr>fs_faults := [None, Some ''EROFS: read-only file system'']\<rparr>)))
       = deployment_files example_world
   \<and> fst (pollVerificationStatus (getApiUrl ''bsc-testnet'') (JStr ''APIKEY'') ''abc123guid''
          ''bsc-testnet''
          (example_world\<lparr>poll_script := [Result ''Pending'', Result ''Pass - Verified''],
             fs_faults := [Some ''EROFS: read-only file system'']\<rparr>)) = Inr ()
   \<and> fst (pollVerificationStatus (getApiUrl ''bsc-testnet'') (JStr ''APIKEY'') ''abc123guid''
          ''bsc-testnet''
          (example_world\<lparr>poll_script := [Result ''Pending'', Result ''Pass - Verified'']\<rparr>))
       = fst (pollVerificationStatus (getApiUrl ''bsc-testnet'') (JStr ''APIKEY'')
          ''abc123guid'' ''bsc-testnet''
          (example_world\<lparr>poll_script := [Result ''Pending'', Result ''Pass - Verified''],
             fs_faults := [Some ''EROFS: read-only file system'']\<rparr>))
   \<and> fst (pollVerificationStatus (getApiUrl ''bsc-testnet'') (JStr ''APIKEY'') ''abc123guid''
          ''bsc-testnet''
          (example_world\<lparr>poll_script := [Result ''Fail - Unable to verify''],
             fs_faults := [Some ''EROFS: read-only file system'']\<rparr>))
       = Inl (VerificationFailed ''Fail - Unable to verify'')
   \<and> fst (pollVerificationStatus (getApiUrl ''bsc-testnet'') (JStr ''APIKEY'') ''abc123guid''
          ''bsc-testnet''
          (example_world\<lparr>poll_script := replicate 20 (Result ''Pending''),
             fs_faults := [Some ''EROFS: read-only file system'']\<rparr>))
       = Inl VerificationTimeout"
proof -
  let ?poll = "pollVerificationStatus (getApiUrl ''bsc-testnet'') (JStr ''APIKEY'')
                 ''abc123guid'' ''bsc-testnet''"
  let ?w = "example_world\<lparr>poll_script := [Result ''Pending'', Result ''Pass - Verified''],
             fs_faults := [Some ''EROFS: read-only file system'']\<rparr>"
  let ?h = "example_world\<lparr>poll_script := [Result ''Pending'', Result ''Pass - Verified'']\<rparr>"
  let ?u = "example_world\<lparr>fs_faults := [None, Some ''EROFS: read-only file system'']\<rparr>"
  let ?f = "example_world\<lparr>poll_script := [Result ''Fail - Unable to verify''],
             fs_faults := [Some ''EROFS: read-only file system'']\<rparr>"
  let ?t = "example_world\<lparr>poll_script := replicate 20 (Result ''Pending''),
             fs_faults := [Some ''EROFS: read-only file system'']\<rparr>"
  note T = write_back_failure_keeps_outcome
    [of "''bsc-testnet''" example_deployment "''abc123guid''" example_settings _
      Verified None "getApiUrl ''bsc-testnet''" "JStr ''APIKEY''"]
  have f: "fs_faults ?w = Some ''EROFS: read-only file system'' # []" by simp
  have s: "poll_script ?w
      = map Result [''Pending''] @ Result ''Pass - Verified'' # []
        \<and> length [''Pending''] < 20 \<and> list_all pending_text [''Pending'']"
    by (simp add: pending_Pending)
  from T [of ?w] have "fst (storeVerificationDetails ''bsc-testnet'' example_deployment
          ''abc123guid'' example_settings ?w) = Inr ()"
    by (rule conjunct1)
  moreover
  from T [of ?w] f
  have "snd (storeVerificationDetails ''bsc-testnet'' example_deployment ''abc123guid''
          example_settings ?w)
       = ?w\<lparr>fs_faults := [],
           trace := trace ?w @ [WriteFile (deployment_path ''bsc-testnet''),
             ConsoleWarn (''Warning: Could not store verification details: ''
               @ ''EROFS: read-only file system'')]\<rparr>"
    by blast
  then have "trace (snd (storeVerificationDetails ''bsc-testnet'' example_deployment
          ''abc123guid'' example_settings ?w))
       = [WriteFile ''deployments/bsc-testnet.json'',
          ConsoleWarn
            ''Warning: Could not store verification details: EROFS: read-only file system'']"
    by (simp add: example_world_def deployment_path_def)
  moreover
  have "fs_faults ?u = None # Some ''EROFS: read-only file system'' # []
      \<and> deployment_files ?u ''bsc-testnet'' \<noteq> None"
    by (simp add: example_world_def)
  with T [of ?u]
  have "snd (updateVerificationStatus ''bsc-testnet'' Verified None ?u)
       = ?u\<lparr>fs_faults := [],
           trace := trace ?u @ [ReadFile (deployment_path ''bsc-testnet''),
             WriteFile (deployment_path ''bsc-testnet''),
             ConsoleWarn (''Warning: Could not update verification status: ''
               @ ''EROFS: read-only file system'')]\<rparr>"
    by blast
  then have "trace (snd (updateVerificationStatus ''bsc-testnet'' Verified None ?u))
       = [ReadFile ''deployments/bsc-testnet.json'', WriteFile ''deployments/bsc-testnet.json'',
          ConsoleWarn
            ''Warning: Could not update verification status: EROFS: read-only file system'']
      \<and> deployment_files (snd (updateVerificationStatus ''bsc-testnet'' Verified None ?u))
       = deployment_files example_world"
    by (simp add: example_world_def deployment_path_def)
  moreover
  from T [of ?w] s have "fst (?poll ?w) = Inr ()"
    by blast
  moreover
  have "poll_script ?h = poll_script ?w" by simp
  with T [of ?w] have "fst (?poll ?h) = fst (?poll ?w)"
    by blast
  moreover
  have "poll_script ?f = map Result [] @ Result ''Fail - Unable to verify'' # []
      \<and> length ([] :: string list) < 20 \<and> list_all pending_text []
      \<and> str_includes ''Fail - Unable to verify'' ''Fail''"
    by simp
  with T [of ?f] have "fst (?poll ?f) = Inl (VerificationFailed ''Fail - Unable to verify'')"
    by blast
  moreover
  have "poll_script ?t = map Result (replicate 20 ''Pending'') @ []
      \<and> length (replicate 20 ''Pending'') = 20
      \<and> list_all pending_text (replicate 20 ''Pending'')"
    by (simp add: pending_Pending list_all_iff)
  with T [of ?t] have "fst (?poll ?t) = Inl VerificationTimeout"
    by blast
  ultimately show ?thesis by simp
qed

section \<open>The verification script up to the bytecode check\<close>

lemma new_events_append: "trace w' = trace w @ t \<Longrightarrow> new_events w w' = t"
  by (simp add: new_events_def)

lemma read_file_trace:
  "read_file path content w = (r, w') \<Longrightarrow> trace w' = trace w @ [ReadFile path]"
  by (auto simp add: read_file_def next_fault_def emit_def
      split: list.splits option.splits)

lemma validate_version_trace:
  "trace (validate_version v w) = trace w @ version_warnings v"
  by (simp add: validate_version_def version_warnings_def console_warn_def emit_def)

lemma verifyContract_catch_trace:
  "\<exists>m. trace (snd (verifyContract_catch e w)) = trace w @ [ConsoleError m]"
  by (simp add: verifyContract_catch_def console_error_def emit_def)

lemma verifyContract_try_check:
  assumes "readSettings w = (Inr settings, w1)"
    and "readDeployment (target_network p) (validate_version (solcVersion settings) w1)
         = (Inr dep, w2)"
    and "getCode svc (js_to_string (getRpcUrl p (target_network p))) (contractAddress dep)
         = Inr live"
  shows "verifyContract_try p svc w =
     (if \<not> str_includes live (str_slice 2 (deployedBytecode settings))
      then (Inl BytecodeMismatch,
            emit (Rpc ''getCode'' (js_to_string (getRpcUrl p (target_network p)))) w2)
      else submit_and_poll p svc (target_network p) settings dep
             (emit (Rpc ''getCode'' (js_to_string (getRpcUrl p (target_network p)))) w2))"
  using assms by (simp add: verifyContract_try_def io_defs rpc_def)

lemma verifyContract_try_early:
  assumes "\<not> (\<exists>settings dep live w1 w2.
             readSettings w = (Inr settings, w1)
           \<and> readDeployment (target_network p) (validate_version (solcVersion settings) w1)
               = (Inr dep, w2)
           \<and> getCode svc (js_to_string (getRpcUrl p (target_network p))) (contractAddress dep)
               = Inr live
           \<and> str_includes live (str_slice 2 (deployedBytecode settings)))"
  shows "\<exists>e w' t. verifyContract_try p svc w = (Inl e, w')
            \<and> trace w' = trace w @ t \<and> \<not> list_ex is_submission t"
proof -
  let ?url = "js_to_string (getRpcUrl p (target_network p))"
  obtain r1 w1 where s1: "readSettings w = (r1, w1)" by (cases "readSettings w")
  then have t1: "trace w1 = trace w @ [ReadFile settings_path]"
    unfolding readSettings_def by (rule read_file_trace)
  show ?thesis
  proof (cases r1)
    case (Inl e)
    with s1 have "verifyContract_try p svc w = (Inl e, w1)"
      by (simp add: verifyContract_try_def io_defs)
    with t1 show ?thesis by simp
  next
    case (Inr settings)
    let ?w1' = "validate_version (solcVersion settings) w1"
    obtain r2 w2 where s2: "readDeployment (target_network p) ?w1' = (r2, w2)"
      by (cases "readDeployment (target_network p) ?w1'")
    then have "trace w2 = trace ?w1' @ [ReadFile (deployment_path (target_network p))]"
      unfolding readDeployment_def by (rule read_file_trace)
    with t1 have t2: "trace w2 = trace w @ [ReadFile settings_path]
        @ version_warnings (solcVersion settings)
        @ [ReadFile (deployment_path (target_network p))]"
      by (simp add: validate_version_trace)
    have nw: "\<not> list_ex is_submission (version_warnings v)" for v
      by (simp add: version_warnings_def)
    show ?thesis
    proof (cases r2)
      case (Inl e)
      with s1 s2 Inr have "verifyContract_try p svc w = (Inl e, w2)"
        by (simp add: verifyContract_try_def io_defs)
      with t2 nw show ?thesis by simp
    next
      case dep: (Inr dep)
      let ?w3 = "emit (Rpc ''getCode'' ?url) w2"
      have t3: "trace ?w3 = trace w @ [ReadFile settings_path]
          @ version_warnings (solcVersion settings)
          @ [ReadFile (deployment_path (target_network p)), Rpc ''getCode'' ?url]"
        using t2 by (simp add: emit_def)
      show ?thesis
      proof (cases "getCode svc ?url (contractAddress dep)")
        case (Inl mc)
        with s1 s2 Inr dep
        have "verifyContract_try p svc w
            = (Inl (ClientFailed ''getCode'' (fst mc) (snd mc)), ?w3)"
          by (cases mc) (simp add: verifyContract_try_def io_defs rpc_def)
        with t3 nw show ?thesis by simp
      next
        case live: (Inr live)
        with assms s1 s2 Inr dep
        have "\<not> str_includes live (str_slice 2 (deployedBytecode settings))" by blast
        with verifyContract_try_check [of w settings w1 p dep w2 svc live] s1 s2 Inr dep live
        have "verifyContract_try p svc w = (Inl BytecodeMismatch, ?w3)" by simp
        with t3 nw show ?thesis by simp
      qed
    qed
  qed
qed

section \<open>Bytecode check before submission\<close>

text \<open>
  What the check does guarantee.  A submission to the explorer is only ever issued when
  the settings file and the deployment record were read, the chain returned the live code
  of the recorded address, and that code contains the compiled \<^verbatim>\<open>deployedBytecode\<close>
  from its third character on (for a bytecode that starts with \<^verbatim>\<open>0x\<close>: the bytecode
  without the prefix).  When the run reaches the check and this containment fails, the
  \<^verbatim>\<open>try\<close> block ends with the bytecode-mismatch error right after the
  \<^verbatim>\<open>getCode\<close> call, the script prints the failure and exits with status 1, and the
  run has added no submission to the trace.
\<close>

lemma bytecode_check_blocks_submission:
  "(list_ex is_submission (new_events w (snd (verifyContract p svc w))) \<longrightarrow>
      (\<exists>settings dep live w1 w2.
          readSettings w = (Inr settings, w1)
        \<and> readDeployment (target_network p) (validate_version (solcVersion settings) w1)
            = (Inr dep, w2)
        \<and> getCode svc (js_to_string (getRpcUrl p (target_network p))) (contractAddress dep)
            = Inr live
        \<and> str_includes live (str_slice 2 (deployedBytecode settings))))
   \<and> (\<forall>settings dep live w1 w2.
          readSettings w = (Inr settings, w1)
        \<and> readDeployment (target_network p) (validate_version (solcVersion settings) w1)
            = (Inr dep, w2)
        \<and> getCode svc (js_to_string (getRpcUrl p (target_network p))) (contractAddress dep)
            = Inr live
        \<and> \<not> str_includes live (str_slice 2 (deployedBytecode settings))
        \<longrightarrow> verifyContract_try p svc w
              = (Inl BytecodeMismatch,
                 emit (Rpc ''getCode'' (js_to_string (getRpcUrl p (target_network p)))) w2)
          \<and> fst (verifyContract p svc w) = Exit 1
          \<and> new_events w (snd (verifyContract p svc w))
              = [ReadFile settings_path] @ version_warnings (solcVersion settings)
                @ [ReadFile (deployment_path (target_network p)),
                   Rpc ''getCode'' (js_to_string (getRpcUrl p (target_network p))),
                   ConsoleError
                     ''Verification failed: Deployed bytecode does not match compiled bytecode'']
          \<and> \<not> list_ex is_submission (new_events w (snd (verifyContract p svc w))))
   \<and> (\<forall>body. str_slice 2 (''0x'' @ body) = body)"
proof (intro conjI allI impI)
  assume sub: "list_ex is_submission (new_events w (snd (verifyContract p svc w)))"
  show "\<exists>settings dep live w1 w2.
          readSettings w = (Inr settings, w1)
        \<and> readDeployment (target_network p) (validate_version (solcVersion settings) w1)
            = (Inr dep, w2)
        \<and> getCode svc (js_to_string (getRpcUrl p (target_network p))) (contractAddress dep)
            = Inr live
        \<and> str_includes live (str_slice 2 (deployedBytecode settings))"
  proof (rule ccontr)
    assume "\<not> ?thesis"
    from verifyContract_try_early [OF this]
    obtain e w' t where r: "verifyContract_try p svc w = (Inl e, w')"
      and t: "trace w' = trace w @ t" and n: "\<not> list_ex is_submission t"
      by blast
    obtain m where "trace (snd (verifyContract_catch e w')) = trace w' @ [ConsoleError m]"
      using verifyContract_catch_trace by blast
    with r t have "new_events w (snd (verifyContract p svc w)) = t @ [ConsoleError m]"
      by (intro new_events_append) (simp add: verifyContract_def)
    with n sub show False by simp
  qed
next
  fix settings dep live w1 w2
  let ?url = "js_to_string (getRpcUrl p (target_network p))"
  assume h: "readSettings w = (Inr settings, w1)
        \<and> readDeployment (target_network p) (validate_version (solcVersion settings) w1)
            = (Inr dep, w2)
        \<and> getCode svc ?url (contractAddress dep) = Inr live
        \<and> \<not> str_includes live (str_slice 2 (deployedBytecode settings))"
  then have r: "verifyContract_try p svc w = (Inl BytecodeMismatch, emit (Rpc ''getCode'' ?url) w2)"
    using verifyContract_try_check [of w settings w1 p dep w2 svc live] by simp
  then show "verifyContract_try p svc w = (Inl BytecodeMismatch, emit (Rpc ''getCode'' ?url) w2)" .
  from r show "fst (verifyContract p svc w) = Exit 1"
    by (simp add: verifyContract_def verifyContract_catch_def)
  from h have "trace w1 = trace w @ [ReadFile settings_path]"
    unfolding readSettings_def by (intro read_file_trace) blast
  moreover from h have "trace w2 = trace (validate_version (solcVersion settings) w1)
      @ [ReadFile (deployment_path (target_network p))]"
    unfolding readDeployment_def by (intro read_file_trace) blast
  ultimately
  have "trace (snd (verifyContract p svc w))
      = trace w @ [ReadFile settings_path] @ version_warnings (solcVersion settings)
          @ [ReadFile (deployment_path (target_network p)), Rpc ''getCode'' ?url,
             ConsoleError
               ''Verification failed: Deployed bytecode does not match compiled bytecode'']"
    using r
    by (simp add: verifyContract_def verifyContract_catch_def validate_version_trace
        console_error_def emit_def)
  then show e: "new_events w (snd (verifyContract p svc w))
      = [ReadFile settings_path] @ version_warnings (solcVersion settings)
          @ [ReadFile (deployment_path (target_network p)), Rpc ''getCode'' ?url,
             ConsoleError
               ''Verification failed: Deployed bytecode does not match compiled bytecode'']"
    by (rule new_events_append)
  show "\<not> list_ex is_submission (new_events w (snd (verifyContract p svc w)))"
    unfolding e by (simp add: version_warnings_def)
next
  fix body show "str_slice 2 (''0x'' @ body) = body" by (rule str_slice_0x)
qed

section \<open>Submission and what follows it\<close>

lemma readSettings_healthy:
  "fs_faults w = [] \<Longrightarrow> settings_file w = Some s \<Longrightarrow>
   readSettings w = (Inr s, emit (ReadFile settings_path) w)"
  by (simp add: readSettings_def read_file_def next_fault_def emit_def)

lemma readDeployment_healthy:
  "fs_faults w = [] \<Longrightarrow> deployment_files w net = Some d \<Longrightarrow>
   readDeployment net w = (Inr d, emit (ReadFile (deployment_path net)) w)"
  by (simp add: readDeployment_def read_file_def next_fault_def emit_def)

lemma readSource_healthy:
  "fs_faults w = [] \<Longrightarrow> contract_sources w file = Some src \<Longrightarrow>
   readSource file w = (Inr src, emit (ReadFile (source_path file)) w)"
  by (simp add: readSource_def read_file_def next_fault_def emit_def)

lemma emit_sel [simp]:
  "trace (emit e w) = trace w @ [e]"
  "fs_faults (emit e w) = fs_faults w"
  "poll_script (emit e w) = poll_script w"
  "settings_file (emit e w) = settings_file w"
  "deployment_files (emit e w) = deployment_files w"
  "public_deployment_files (emit e w) = public_deployment_files w"
  "contract_sources (emit e w) = contract_sources w"
  "artifact_files (emit e w) = artifact_files w"
  "clock (emit e w) = clock w"
  by (simp_all add: emit_def)

lemma validate_version_sel [simp]:
  "fs_faults (validate_version v w) = fs_faults w"
  "poll_script (validate_version v w) = poll_script w"
  "deployment_files (validate_version v w) = deployment_files w"
  "contract_sources (validate_version v w) = contract_sources w"
  by (simp_all add: validate_version_def console_warn_def)

lemma store_trace:
  "\<exists>tail. trace (snd (storeVerificationDetails net dep gid settings w)) = trace w @ tail"
  by (auto simp add: storeVerificationDetails_def io_defs store_defs
      split: list.splits option.splits)

lemma store_then:
  "io_bind (storeVerificationDetails net dep gid settings) k w
   = k () (snd (storeVerificationDetails net dep gid settings w))"
  using storeVerificationDetails_total [of net dep gid settings w]
  by (cases "storeVerificationDetails net dep gid settings w") (simp add: io_bind_def)

lemma poll_trace:
  "\<exists>tail. trace (snd (pollVerificationStatus apiUrl apiKey gid net w)) = trace w @ tail"
proof -
  obtain n rest where "poll_ending net (after_rounds n (status_url apiUrl apiKey gid) rest w)
      (poll_loop 0 (status_url apiUrl apiKey gid) net w)"
    using poll_loop_run by blast
  from poll_ending_trace [OF this] show ?thesis
    by (auto simp add: pollVerificationStatus_def)
qed

lemma submit_and_poll_healthy:
  assumes "fs_faults w = []"
    and "contract_sources w (set_contractName settings @ ''.sol'') = Some src"
    and "encode_args svc dep = io_return enc"
    and "verifysourcecode svc (js_to_string (getApiUrl net))
           (verificationPayload p net dep settings src enc) = Inr response"
  shows "submit_and_poll p svc net settings dep w =
     (if resp_status response = ''1'' then
        pollVerificationStatus (getApiUrl net) (getApiKey p net) (resp_result response) net
          (snd (storeVerificationDetails net dep (resp_result response) settings
             (emit (HttpPost (js_to_string (getApiUrl net))
                      (verificationPayload p net dep settings src enc))
                (emit (ReadFile (source_path (set_contractName settings @ ''.sol''))) w))))
      else (Inl (SubmissionRejected (resp_message response)),
            emit (HttpPost (js_to_string (getApiUrl net))
                    (verificationPayload p net dep settings src enc))
              (emit (ReadFile (source_path (set_contractName settings @ ''.sol''))) w)))"
  using assms
  by (simp add: submit_and_poll_def io_bind_def io_return_def io_throw_def readSource_healthy
      submitVerification_def Let_def store_then [unfolded io_bind_def])

lemma submit_and_poll_trace:
  assumes "fs_faults w = []"
    and "contract_sources w (set_contractName settings @ ''.sol'') = Some src"
    and "encode_args svc dep = io_return enc"
  shows "\<exists>tail. trace (snd (submit_and_poll p svc net settings dep w))
           = trace w @ [ReadFile (source_path (set_contractName settings @ ''.sol'')),
                        HttpPost (js_to_string (getApiUrl net))
                          (verificationPayload p net dep settings src enc)] @ tail"
proof (cases "verifysourcecode svc (js_to_string (getApiUrl net))
           (verificationPayload p net dep settings src enc)")
  case (Inl mc)
  with assms show ?thesis
    by (cases mc)
       (simp add: submit_and_poll_def io_bind_def io_return_def readSource_healthy
          submitVerification_def Let_def)
next
  case (Inr response)
  let ?w2 = "emit (HttpPost (js_to_string (getApiUrl net))
                      (verificationPayload p net dep settings src enc))
                (emit (ReadFile (source_path (set_contractName settings @ ''.sol''))) w)"
  note r = submit_and_poll_healthy [OF assms Inr]
  show ?thesis
  proof (cases "resp_status response = ''1''")
    case False
    with r show ?thesis by simp
  next
    case True
    obtain t1 where t1: "trace (snd (storeVerificationDetails net dep (resp_result response)
        settings ?w2)) = trace ?w2 @ t1"
      using store_trace by blast
    obtain t2 where "trace (snd (pollVerificationStatus (getApiUrl net) (getApiKey p net)
        (resp_result response) net
        (snd (storeVerificationDetails net dep (resp_result response) settings ?w2))))
        = trace (snd (storeVerificationDetails net dep (resp_result response) settings ?w2)) @ t2"
      using poll_trace by blast
    with t1 r True show ?thesis by simp
  qed
qed

lemma verifyContract_resolved:
  "fst (verifyContract_try p svc w) = Inr () \<Longrightarrow> fst (verifyContract p svc w) = Resolved"
  by (cases "verifyContract_try p svc w") (simp add: verifyContract_def)

lemma verifyContract_trace_from_try:
  assumes "trace (snd (verifyContract_try p svc w)) = trace w @ t"
  shows "\<exists>t'. trace (snd (verifyContract p svc w)) = trace w @ t @ t'"
proof (cases "verifyContract_try p svc w")
  case (Pair r w')
  show ?thesis
  proof (cases r)
    case (Inl e)
    with Pair assms verifyContract_catch_trace [of e w'] show ?thesis
      by (auto simp add: verifyContract_def)
  next
    case (Inr u)
    with Pair assms show ?thesis by (simp add: verifyContract_def)
  qed
qed

lemma verifyContract_try_healthy:
  assumes "fs_faults w = []" and "settings_file w = Some settings"
    and "deployment_files w (target_network p) = Some dep"
    and "getCode svc (js_to_string (getRpcUrl p (target_network p))) (contractAddress dep)
         = Inr live"
    and "str_includes live (str_slice 2 (deployedBytecode settings))"
  shows "verifyContract_try p svc w =
         submit_and_poll p svc (target_network p) settings dep
           (emit (Rpc ''getCode'' (js_to_string (getRpcUrl p (target_network p))))
             (emit (ReadFile (deployment_path (target_network p)))
               (validate_version (solcVersion settings)
                 (emit (ReadFile settings_path) w))))"
proof -
  let ?w1 = "emit (ReadFile settings_path) w"
  let ?w1' = "validate_version (solcVersion settings) ?w1"
  have 1: "readSettings w = (Inr settings, ?w1)"
    using assms by (simp add: readSettings_healthy)
  have 2: "readDeployment (target_network p) ?w1'
      = (Inr dep, emit (ReadFile (deployment_path (target_network p))) ?w1')"
    using assms by (simp add: readDeployment_healthy)
  from verifyContract_try_check [OF 1 2 assms(4)] assms(5) show ?thesis by simp
qed

lemma match_run_split: "match_run cls s = Some (x, r) \<Longrightarrow> s = x @ r"
  by (auto simp add: match_run_def split: if_splits)

lemma match_lit_split: "match_lit lit s = Some (x, r) \<Longrightarrow> s = x @ r \<and> x = lit"
  by (auto simp add: match_lit_def prefix_def split: if_splits)

lemma match_version_split:
  assumes "match_version v = Some (x, r)"
  shows "\<exists>d1 d2 d3 h. x = d1 @ ''.'' @ d2 @ ''.'' @ d3 @ ''+commit.'' @ h \<and> v = x @ r"
proof -
  from assms obtain x1 r1 x2 r2 x3 r3 x4 r4 x5 r5 x6 r6 where
    m: "match_run is_digit v = Some (x1, r1)" "match_lit ''.'' r1 = Some (x2, r2)"
      "match_run is_digit r2 = Some (x3, r3)" "match_lit ''.'' r3 = Some (x4, r4)"
      "match_run is_digit r4 = Some (x5, r5)" "match_lit ''+commit.'' r5 = Some (x6, r6)"
      "match_run is_hex r6 = Some (drop (length (x1 @ x2 @ x3 @ x4 @ x5 @ x6)) x, r)"
    and x: "x = x1 @ x2 @ x3 @ x4 @ x5 @ x6 @ drop (length (x1 @ x2 @ x3 @ x4 @ x5 @ x6)) x"
    by (auto simp add: match_version_def match_seq_def split: option.splits)
  let ?h = "drop (length (x1 @ x2 @ x3 @ x4 @ x5 @ x6)) x"
  from m have "v = x1 @ r1" "r1 = x2 @ r2" "x2 = ''.''" "r2 = x3 @ r3" "r3 = x4 @ r4"
    "x4 = ''.''" "r4 = x5 @ r5" "r5 = x6 @ r6" "x6 = ''+commit.''" "r6 = ?h @ r"
    by (auto dest: match_run_split match_lit_split)
  with x have "x = x1 @ ''.'' @ x3 @ ''.'' @ x5 @ ''+commit.'' @ ?h \<and> v = x @ r"
    by (metis append.assoc)
  then show ?thesis by blast
qed

lemma commit_qualified_includes:
  assumes "commit_qualified v"
  shows "str_includes v ''+commit.''"
proof -
  from assms obtain x where "match_version v = Some (x, [])"
    by (auto simp add: commit_qualified_def split: option.splits)
  from match_version_split [OF this]
  obtain d1 d2 d3 h where "v = (d1 @ ''.'' @ d2 @ ''.'' @ d3) @ ''+commit.'' @ h" by auto
  then show ?thesis by (simp only: str_includes_append)
qed

lemma verifyContract_healthy_trace:
  assumes "fs_faults w = []" and "settings_file w = Some settings"
    and "deployment_files w (target_network p) = Some dep"
    and "getCode svc (js_to_string (getRpcUrl p (target_network p))) (contractAddress dep)
         = Inr live"
    and "str_includes live (str_slice 2 (deployedBytecode settings))"
    and "encode_args svc dep = io_return enc"
    and "contract_sources w (set_contractName settings @ ''.sol'') = Some src"
  shows "\<exists>tail. new_events w (snd (verifyContract p svc w))
           = [ReadFile settings_path] @ version_warnings (solcVersion settings)
             @ [ReadFile (deployment_path (target_network p)),
                Rpc ''getCode'' (js_to_string (getRpcUrl p (target_network p))),
                ReadFile (source_path (set_contractName settings @ ''.sol'')),
                HttpPost (js_to_string (getApiUrl (target_network p)))
                  (verificationPayload p (target_network p) dep settings src enc)] @ tail"
proof -
  let ?w3 = "emit (Rpc ''getCode'' (js_to_string (getRpcUrl p (target_network p))))
             (emit (ReadFile (deployment_path (target_network p)))
               (validate_version (solcVersion settings)
                 (emit (ReadFile settings_path) w)))"
  let ?pre = "[ReadFile settings_path] @ version_warnings (solcVersion settings)
             @ [ReadFile (deployment_path (target_network p)),
                Rpc ''getCode'' (js_to_string (getRpcUrl p (target_network p))),
                ReadFile (source_path (set_contractName settings @ ''.sol'')),
                HttpPost (js_to_string (getApiUrl (target_network p)))
                  (verificationPayload p (target_network p) dep settings src enc)]"
  have r: "verifyContract_try p svc w
      = submit_and_poll p svc (target_network p) settings dep ?w3"
    using assms(1-5) by (rule verifyContract_try_healthy)
  have "fs_faults ?w3 = []"
    and "contract_sources ?w3 (set_contractName settings @ ''.sol'') = Some src"
    using assms by simp_all
  from submit_and_poll_trace [OF this assms(6), of p "target_network p"]
  obtain tail where "trace (snd (submit_and_poll p svc (target_network p) settings dep ?w3))
      = trace ?w3 @ [ReadFile (source_path (set_contractName settings @ ''.sol'')),
                     HttpPost (js_to_string (getApiUrl (target_network p)))
                       (verificationPayload p (target_network p) dep settings src enc)] @ tail"
    by blast
  with r have "trace (snd (verifyContract_try p svc w)) = trace w @ (?pre @ tail)"
    by (simp add: validate_version_trace)
  from verifyContract_trace_from_try [OF this]
  obtain t' where "trace (snd (verifyContract p svc w)) = trace w @ (?pre @ tail) @ t'"
    by blast
  then have "new_events w (snd (verifyContract p svc w)) = ?pre @ (tail @ t')"
    by (intro new_events_append) simp
  then show ?thesis by (intro exI [of _ "tail @ t'"]) simp
qed

lemma verifyContract_healthy_verified:
  assumes "fs_faults w = []" and "settings_file w = Some settings"
    and "deployment_files w (target_network p) = Some dep"
    and "getCode svc (js_to_string (getRpcUrl p (target_network p))) (contractAddress dep)
         = Inr live"
    and "str_includes live (str_slice 2 (deployedBytecode settings))"
    and "encode_args svc dep = io_return enc"
    and "contract_sources w (set_contractName settings @ ''.sol'') = Some src"
    and "verifysourcecode svc (js_to_string (getApiUrl (target_network p)))
           (verificationPayload p (target_network p) dep settings src enc) = Inr response"
    and "resp_status response = ''1''"
    and "poll_script w = map Result pending @ Result ''Pass - Verified'' # rest"
    and "length pending < 20" and "\<forall>t\<in>set pending. pending_text t"
  shows "fst (verifyContract p svc w) = Resolved"
proof -
  let ?w3 = "emit (Rpc ''getCode'' (js_to_string (getRpcUrl p (target_network p))))
             (emit (ReadFile (deployment_path (target_network p)))
               (validate_version (solcVersion settings)
                 (emit (ReadFile settings_path) w)))"
  let ?w4 = "snd (storeVerificationDetails (target_network p) dep (resp_result response) settings
             (emit (HttpPost (js_to_string (getApiUrl (target_network p)))
                      (verificationPayload p (target_network p) dep settings src enc))
                (emit (ReadFile (source_path (set_contractName settings @ ''.sol''))) ?w3)))"
  have r: "verifyContract_try p svc w
      = submit_and_poll p svc (target_network p) settings dep ?w3"
    using assms(1-5) by (rule verifyContract_try_healthy)
  have "fs_faults ?w3 = []"
    and "contract_sources ?w3 (set_contractName settings @ ''.sol'') = Some src"
    using assms by simp_all
  from submit_and_poll_healthy [OF this assms(6) assms(8)] assms(9) r
  have "verifyContract_try p svc w
      = pollVerificationStatus (getApiUrl (target_network p))
          (getApiKey p (target_network p)) (resp_result response) (target_network p) ?w4"
    by simp
  moreover have "poll_script ?w4 = map Result pending @ Result ''Pass - Verified'' # rest"
    using assms(10) by (simp add: store_sel)
  ultimately have "fst (verifyContract_try p svc w) = Inr ()"
    using assms(11,12)
    by (simp add: pollVerificationStatus_def poll_outcome_pass)
  then show ?thesis by (rule verifyContract_resolved)
qed

section \<open>The compiler version is advisory\<close>

text \<open>
  C6, as the code has it.  A \<^verbatim>\<open>solcVersion\<close> without the substring \<^verbatim>\<open>+commit.\<close> is
  answered with three warnings and nothing else: when the files are readable and the
  bytecode check passes, the run goes on to read the source and to post the submission to
  the explorer.  (A version of the commit-qualified format always contains
  \<^verbatim>\<open>+commit.\<close>, so such a version is never warned about.)
\<close>

theorem version_without_commit_hash_only_warns:
  assumes "fs_faults w = []" and "settings_file w = Some settings"
    and "\<not> str_includes (solcVersion settings) ''+commit.''"
    and "deployment_files w (target_network p) = Some dep"
    and "getCode svc (js_to_string (getRpcUrl p (target_network p))) (contractAddress dep)
         = Inr live"
    and "str_includes live (str_slice 2 (deployedBytecode settings))"
    and "encode_args svc dep = io_return enc"
    and "contract_sources w (set_contractName settings @ ''.sol'') = Some src"
  shows "\<exists>tail. new_events w (snd (verifyContract p svc w))
           = [ReadFile settings_path,
              ConsoleWarn ''Version missing commit hash - this may cause verification failure'',
              ConsoleWarn (''Current version: '' @ solcVersion settings),
              ConsoleWarn ''Expected format: 0.8.20+commit.a1b79de6'',
              ReadFile (deployment_path (target_network p)),
              Rpc ''getCode'' (js_to_string (getRpcUrl p (target_network p))),
              ReadFile (source_path (set_contractName settings @ ''.sol'')),
              HttpPost (js_to_string (getApiUrl (target_network p)))
                (verificationPayload p (target_network p) dep settings src enc)] @ tail"
  using verifyContract_healthy_trace [OF assms(1,2,4,5,6,7,8)] assms(3)
  by (simp add: version_warnings_def)

section \<open>The sample project, evaluated\<close>

lemma example_target:
  "target_network example_process = ''bsc-testnet''"
  "target_contract example_process = ''SimpleStorage''"
  by (simp_all add: target_network_def target_contract_def argv_at_def env_get_def js_or_def
      example_process_def)

lemma example_rpc_url:
  "js_to_string (getRpcUrl example_process ''bsc-testnet'')
   = ''https://data-seed-prebsc-1-s1.binance.org:8545/''"
  by (simp add: getRpcUrl_def get_property_def env_get_def js_or_def example_process_def)

lemma example_api_url:
  "js_to_string (getApiUrl ''bsc-testnet'') = ''https://api-testnet.bscscan.com/api''"
  by (simp add: getApiUrl_def get_property_def js_or_def)

lemma example_encode_args:
  "encode_args (example_services funds live) example_deployment = io_return []"
  by (rule ext)
     (simp add: encode_args_def example_deployment_def example_services_def client_def
        io_bind_def io_return_def str_slice_def)

lemma example_world_sel:
  "fs_faults example_world = []"
  "settings_file example_world = Some example_settings"
  "deployment_files example_world ''bsc-testnet'' = Some example_deployment"
  "contract_sources example_world ''SimpleStorage.sol'' = Some example_source"
  "artifact_files example_world ''SimpleStorage'' = Some example_artifact"
  "trace example_world = []"
  "poll_script example_world = []"
  "clock example_world = 0"
  by (simp_all add: example_world_def)

lemma example_services_sel:
  "getCode (example_services funds live) url addr = Inr live"
  "getBalance (example_services funds live) url addr = Inr funds"
  "verifysourcecode (example_services funds live) url pl
   = Inr \<lparr>resp_status = ''1'', resp_message = ''OK'', resp_result = ''abc123guid''\<rparr>"
  by (simp_all add: example_services_def)

lemma bytecode_check_blocks_submission_example:
  "fst (verifyContract example_process (example_services 1 ''0x60fe'') example_world) = Exit 1
   \<and> new_events example_world
        (snd (verifyContract example_process (example_services 1 ''0x60fe'') example_world))
     = [ReadFile ''artifacts/compilation-settings.json'',
        ReadFile ''deployments/bsc-testnet.json'',
        Rpc ''getCode'' ''https://data-seed-prebsc-1-s1.binance.org:8545/'',
        ConsoleError
          ''Verification failed: Deployed bytecode does not match compiled bytecode'']
   \<and> list_ex is_submission
        (new_events example_world
          (snd (verifyContract example_process (example_services 1 ''0x6080aa'') example_world)))
   \<and> (\<exists>settings dep live w1 w2.
          readSettings example_world = (Inr settings, w1)
        \<and> readDeployment (target_network example_process)
             (validate_version (solcVersion settings) w1) = (Inr dep, w2)
        \<and> getCode (example_services 1 ''0x6080aa'')
             (js_to_string (getRpcUrl example_process (target_network example_process)))
             (contractAddress dep) = Inr live
        \<and> str_includes live (str_slice 2 (deployedBytecode settings)))"
proof -
  let ?bad = "example_services 1 ''0x60fe''"
  let ?good = "example_services 1 ''0x6080aa''"
  let ?w1 = "emit (ReadFile settings_path) example_world"
  let ?w2 = "emit (ReadFile (deployment_path ''bsc-testnet''))
               (validate_version (solcVersion example_settings) ?w1)"
  have steps: "readSettings example_world = (Inr example_settings, ?w1)
      \<and> readDeployment (target_network example_process)
           (validate_version (solcVersion example_settings) ?w1) = (Inr example_deployment, ?w2)
      \<and> getCode ?bad (js_to_string (getRpcUrl example_process (target_network example_process)))
           (contractAddress example_deployment) = Inr ''0x60fe''
      \<and> \<not> str_includes ''0x60fe'' (str_slice 2 (deployedBytecode example_settings))"
    by (simp add: readSettings_healthy readDeployment_healthy example_world_sel example_target
        example_services_sel)
       (simp add: example_settings_def str_slice_def)
  note T = bytecode_check_blocks_submission [of example_world example_process ?bad]
  from T have "\<forall>settings dep live w1 w2.
          readSettings example_world = (Inr settings, w1)
        \<and> readDeployment (target_network example_process)
            (validate_version (solcVersion settings) w1) = (Inr dep, w2)
        \<and> getCode ?bad (js_to_string (getRpcUrl example_process (target_network example_process)))
            (contractAddress dep) = Inr live
        \<and> \<not> str_includes live (str_slice 2 (deployedBytecode settings))
        \<longrightarrow> fst (verifyContract example_process ?bad example_world) = Exit 1
          \<and> new_events example_world (snd (verifyContract example_process ?bad example_world))
              = [ReadFile settings_path] @ version_warnings (solcVersion settings)
                @ [ReadFile (deployment_path (target_network example_process)),
                   Rpc ''getCode''
                     (js_to_string (getRpcUrl example_process (target_network example_process))),
                   ConsoleError
                     ''Verification failed: Deployed bytecode does not match compiled bytecode'']"
    by blast
  from this [rule_format, OF steps]
  have a: "fst (verifyContract example_process ?bad example_world) = Exit 1
      \<and> new_events example_world (snd (verifyContract example_process ?bad example_world))
        = [ReadFile ''artifacts/compilation-settings.json'',
           ReadFile ''deployments/bsc-testnet.json'',
           Rpc ''getCode'' ''https://data-seed-prebsc-1-s1.binance.org:8545/'',
           ConsoleError
             ''Verification failed: Deployed bytecode does not match compiled bytecode'']"
    by (simp add: example_target example_rpc_url settings_path_def deployment_path_def
        version_warnings_def example_settings_def)
  have good: "fs_faults example_world = []"
    "settings_file example_world = Some example_settings"
    "deployment_files example_world (target_network example_process) = Some example_deployment"
    "getCode ?good (js_to_string (getRpcUrl example_process (target_network example_process)))
       (contractAddress example_deployment) = Inr ''0x6080aa''"
    "str_includes ''0x6080aa'' (str_slice 2 (deployedBytecode example_settings))"
    "encode_args ?good example_deployment = io_return []"
    "contract_sources example_world (set_contractName example_settings @ ''.sol'')
     = Some example_source"
    by (simp_all add: example_world_def example_settings_def str_slice_def example_target
        example_services_sel example_encode_args)
  from verifyContract_healthy_trace [OF good]
  have b: "list_ex is_submission
      (new_events example_world (snd (verifyContract example_process ?good example_world)))"
    by auto
  with bytecode_check_blocks_submission [of example_world example_process ?good]
  have "\<exists>settings dep live w1 w2.
          readSettings example_world = (Inr settings, w1)
        \<and> readDeployment (target_network example_process)
             (validate_version (solcVersion settings) w1) = (Inr dep, w2)
        \<and> getCode ?good
             (js_to_string (getRpcUrl example_process (target_network example_process)))
             (contractAddress dep) = Inr live
        \<and> str_includes live (str_slice 2 (deployedBytecode settings))"
    by blast
  with a b show ?thesis by blast
qed

lemma semver_run:
  "fs_faults semver_world = []"
  "settings_file semver_world = Some semver_settings"
  "\<not> str_includes (solcVersion semver_settings) ''+commit.''"
  "deployment_files semver_world (target_network example_process) = Some example_deployment"
  "getCode (example_services 1 ''0x6080'')
     (js_to_string (getRpcUrl example_process (target_network example_process)))
     (contractAddress example_deployment) = Inr ''0x6080''"
  "str_includes ''0x6080'' (str_slice 2 (deployedBytecode semver_settings))"
  "encode_args (example_services 1 ''0x6080'') example_deployment = io_return []"
  "contract_sources semver_world (set_contractName semver_settings @ ''.sol'')
   = Some example_source"
  by (simp_all add: semver_world_def semver_settings_def example_world_def example_settings_def
      str_slice_def example_target example_services_sel example_encode_args)

lemma semver_names:
  "solcVersion semver_settings = ''0.8.20''"
  "set_contractName semver_settings = ''SimpleStorage''"
  by (simp_all add: semver_settings_def example_settings_def)

theorem version_without_commit_hash_only_warns_witness:
  "\<exists>tail. new_events semver_world
            (snd (verifyContract example_process (example_services 1 ''0x6080'') semver_world))
     = [ReadFile ''artifacts/compilation-settings.json'',
        ConsoleWarn ''Version missing commit hash - this may cause verification failure'',
        ConsoleWarn ''Current version: 0.8.20'',
        ConsoleWarn ''Expected format: 0.8.20+commit.a1b79de6'',
        ReadFile ''deployments/bsc-testnet.json'',
        Rpc ''getCode'' ''https://data-seed-prebsc-1-s1.binance.org:8545/'',
        ReadFile ''contracts/SimpleStorage.sol'',
        HttpPost ''https://api-testnet.bscscan.com/api''
          (verificationPayload example_process ''bsc-testnet'' example_deployment
             semver_settings example_source [])] @ tail"
  using version_without_commit_hash_only_warns [OF semver_run]
  by (simp add: semver_names example_target example_rpc_url example_api_url settings_path_def
      deployment_path_def source_path_def)

text \<open>
  C6 as the specification words it (a version that does not have the commit-qualified
  format prevents the submission) does not hold: with the version \<^verbatim>\<open>0.8.20\<close> the
  sample project is submitted, polled and reported verified.
\<close>

theorem version_precondition_counterexample:
  "\<not> commit_qualified (solcVersion semver_settings)
   \<and> settings_file semver_world = Some semver_settings
   \<and> list_ex is_submission
        (new_events semver_world
          (snd (verifyContract example_process (example_services 1 ''0x6080'') semver_world)))
   \<and> fst (verifyContract example_process (example_services 1 ''0x6080'') semver_world)
     = Resolved"
proof -
  have "\<not> commit_qualified (solcVersion semver_settings)"
    by (simp add: semver_names commit_qualified_def match_version_def match_seq_def
        match_run_def match_lit_def is_digit_def is_hex_def)
  moreover
  from verifyContract_healthy_trace [OF semver_run(1,2,4,5,6,7,8)]
  have "list_ex is_submission
      (new_events semver_world
        (snd (verifyContract example_process (example_services 1 ''0x6080'') semver_world)))"
    by auto
  moreover
  have "verifysourcecode (example_services 1 ''0x6080'')
          (js_to_string (getApiUrl (target_network example_process)))
          (verificationPayload example_process (target_network example_process)
             example_deployment semver_settings example_source [])
        = Inr \<lparr>resp_status = ''1'', resp_message = ''OK'', resp_result = ''abc123guid''\<rparr>"
    by (simp add: example_services_sel)
  from verifyContract_healthy_verified [OF semver_run(1,2,4,5,6,7,8) this, of "[]" "[]"]
  have "fst (verifyContract example_process (example_services 1 ''0x6080'') semver_world)
      = Resolved"
    by (simp add: semver_world_def)
  ultimately show ?thesis by (simp add: semver_run)
qed

section \<open>Rules for sequences of steps\<close>

lemma guarded_bind:
  assumes "preserves R m" and "transp R" and "\<And>a. guarded R E (f a)"
  shows "guarded R E (io_bind m f)"
  unfolding guarded_def
proof (intro allI impI)
  fix w e w' assume r: "io_bind m f w = (Inl e, w')"
  obtain x w1 where m: "m w = (x, w1)" by (cases "m w")
  with assms(1) have R1: "R w w1" by (auto simp add: preserves_def dest: spec [of _ w])
  show "E e \<or> R w w'"
  proof (cases x)
    case (Inl e')
    with m r R1 show ?thesis by (simp add: io_bind_def)
  next
    case (Inr a)
    with m r have "f a w1 = (Inl e, w')" by (simp add: io_bind_def)
    with assms(3) have "E e \<or> R w1 w'" by (auto simp add: guarded_def)
    with R1 assms(2) show ?thesis by (auto dest: transpD)
  qed
qed

lemma fails_only_bind:
  assumes "fails_only E m" and "\<And>a. fails_only E (f a)"
  shows "fails_only E (io_bind m f)"
  using assms unfolding fails_only_def io_bind_def
  by (auto split: prod.splits sum.splits)

lemma guarded_fails_only: "fails_only E m \<Longrightarrow> guarded R E m"
  by (auto simp add: fails_only_def guarded_def)

lemma guarded_throw: "reflp R \<Longrightarrow> guarded R E (io_throw e)"
  by (auto simp add: guarded_def io_throw_def dest: reflpD)

lemma fails_only_throw: "E e \<Longrightarrow> fails_only E (io_throw e)"
  by (simp add: fails_only_def io_throw_def)

lemma fails_only_return: "fails_only E (io_return a)"
  by (simp add: fails_only_def io_return_def)

lemma fails_only_now: "fails_only E now"
  by (simp add: fails_only_def now_def)

lemma fails_only_rpc: "(\<And>m c. E (ClientFailed method m c)) \<Longrightarrow> fails_only E (rpc method url r)"
  by (auto simp add: fails_only_def rpc_def split: sum.splits)

lemma fails_only_send_transaction:
  "(\<And>m c. E (ClientFailed ''sendTransaction'' m c)) \<Longrightarrow>
   fails_only E (send_transaction url limit r)"
  by (auto simp add: fails_only_def send_transaction_def split: sum.splits)

lemma fails_only_client: "(\<And>m c. E (ClientFailed method m c)) \<Longrightarrow> fails_only E (client method r)"
  by (auto simp add: fails_only_def client_def split: sum.splits)

lemma fails_only_write_file: "(\<And>m. E (WriteFailed path m)) \<Longrightarrow> fails_only E (write_file path store)"
  by (auto simp add: fails_only_def write_file_def next_fault_def
      split: list.splits option.splits)

lemma fails_only_mkdir: "(\<And>m. E (MkdirFailed path m)) \<Longrightarrow> fails_only E (mkdir path)"
  by (auto simp add: fails_only_def mkdir_def next_fault_def split: list.splits option.splits)

lemma fails_only_encode_constructor_args:
  "(\<And>m c. E (ClientFailed ''encode'' m c)) \<Longrightarrow>
   fails_only E (encode_constructor_args svc a args)"
  by (simp add: encode_constructor_args_def fails_only_bind fails_only_client fails_only_return)

text \<open>The relations are preorders, and the steps before the record is written respect them.\<close>

lemma same_records_preorder: "reflp same_records" "transp same_records"
  by (auto simp add: same_records_def reflp_def transp_def)

lemma nothing_sent_preorder: "reflp nothing_sent" "transp nothing_sent"
proof -
  show "reflp nothing_sent"
    by (auto simp add: nothing_sent_def reflp_def)
  show "transp nothing_sent"
    unfolding transp_def nothing_sent_def
  proof (intro allI impI, elim exE conjE)
    fix x y z :: world and t t'
    assume "trace y = trace x @ t" "trace z = trace y @ t'"
      "\<not> list_ex is_send t" "\<not> list_ex is_send t'"
    then have "trace z = trace x @ (t @ t') \<and> \<not> list_ex is_send (t @ t')" by simp
    then show "\<exists>t. trace z = trace x @ t \<and> \<not> list_ex is_send t" by blast
  qed
qed

lemma preserves_mkdir:
  "preserves same_records (mkdir path)" "preserves nothing_sent (mkdir path)"
  by (auto simp add: preserves_def same_records_def nothing_sent_def mkdir_def next_fault_def
      emit_def split: list.splits option.splits)

lemma preserves_read_file:
  "preserves same_records (read_file path content)"
  "preserves nothing_sent (read_file path content)"
  by (auto simp add: preserves_def same_records_def nothing_sent_def read_file_def
      next_fault_def emit_def split: list.splits option.splits)

lemma preserves_getProvider:
  "preserves same_records (getProvider p net)" "preserves nothing_sent (getProvider p net)"
  by (auto simp add: preserves_def same_records_def nothing_sent_def getProvider_def Let_def
      io_throw_def io_return_def)

lemma preserves_client:
  "preserves same_records (client method r)" "preserves nothing_sent (client method r)"
  by (auto simp add: preserves_def same_records_def nothing_sent_def client_def
      split: sum.splits)

lemma preserves_getSigner:
  "preserves same_records (getSigner p svc)" "preserves nothing_sent (getSigner p svc)"
  by (auto simp add: getSigner_def Let_def preserves_def io_throw_def same_records_def
      nothing_sent_def client_def split: sum.splits)

lemma preserves_rpc:
  "preserves same_records (rpc method url r)" "preserves nothing_sent (rpc method url r)"
  by (auto simp add: preserves_def same_records_def nothing_sent_def rpc_def emit_def
      split: sum.splits)

lemma preserves_send_transaction: "preserves same_records (send_transaction url limit r)"
  by (auto simp add: preserves_def same_records_def send_transaction_def emit_def
      split: sum.splits)

lemma preserves_encode_constructor_args:
  "preserves same_records (encode_constructor_args svc a args)"
  "preserves nothing_sent (encode_constructor_args svc a args)"
  by (auto simp add: preserves_def same_records_def nothing_sent_def
      encode_constructor_args_def client_def io_bind_def io_return_def split: sum.splits)

lemma preserves_now: "preserves same_records now" "preserves nothing_sent now"
  by (simp_all add: preserves_def same_records_def nothing_sent_def now_def)




section \<open>Steps of the deployment script\<close>

lemma guarded_if:
  "guarded R E a \<Longrightarrow> guarded R E b \<Longrightarrow> guarded R E (if c then a else b)"
  by simp

lemma guarded_case_option:
  "guarded R E n \<Longrightarrow> (\<And>x. guarded R E (s x)) \<Longrightarrow>
   guarded R E (case opt of None \<Rightarrow> n | Some x \<Rightarrow> s x)"
  by (cases opt) simp_all

lemma fails_only_case_option:
  "fails_only E n \<Longrightarrow> (\<And>x. fails_only E (s x)) \<Longrightarrow>
   fails_only E (case opt of None \<Rightarrow> n | Some x \<Rightarrow> s x)"
  by (cases opt) simp_all

lemma persist_fails_only:
  "fails_only persistence_error
     (io_bind (writeDeployment net info) (\<lambda>u.
      io_bind (mkdir public_deployments_dir) (\<lambda>u.
      io_bind (writePublicDeployment net info) (\<lambda>u. io_return r))))"
  by (intro fails_only_bind fails_only_mkdir fails_only_return)
     (simp_all add: writeDeployment_def writePublicDeployment_def fails_only_write_file)

lemma deploy_funded_guarded:
  "guarded same_records persistence_error (deploy_funded p svc artifact provider address)"
  unfolding deploy_funded_def deploy_confirm_def
  by (intro guarded_fails_only [OF persist_fails_only] guarded_bind guarded_case_option
      guarded_throw preserves_rpc(1) preserves_client(1) preserves_send_transaction
      preserves_encode_constructor_args(1) preserves_now(1) same_records_preorder)

lemma deploy_try_guarded:
  "guarded same_records persistence_error (deploy_try p svc)"
  unfolding deploy_try_def readArtifact_def
  by (intro guarded_bind guarded_if guarded_throw deploy_funded_guarded preserves_mkdir(1)
      preserves_read_file(1) preserves_getProvider(1) preserves_getSigner(1) preserves_rpc(1)
      same_records_preorder)

lemma deploy_funded_never_NoFunds:
  "fails_only (\<lambda>e. e \<noteq> NoFunds) (deploy_funded p svc artifact provider address)"
  unfolding deploy_funded_def deploy_confirm_def writeDeployment_def writePublicDeployment_def
  by (intro fails_only_bind fails_only_case_option fails_only_throw fails_only_rpc
      fails_only_send_transaction
      fails_only_client fails_only_encode_constructor_args fails_only_now
      fails_only_write_file fails_only_mkdir fails_only_return)
     simp_all

lemma deploy_catch_sel:
  "fst (deploy_catch e w) = DeployFailure (message e)"
  "deployment_files (snd (deploy_catch e w)) = deployment_files w"
  "public_deployment_files (snd (deploy_catch e w)) = public_deployment_files w"
  by (simp_all add: deploy_catch_def console_error_def Let_def)

lemma deploy_catch_trace:
  "\<exists>t. trace (snd (deploy_catch e w))
        = trace w @ ConsoleError (''Deployment failed: '' @ message e) # t
      \<and> \<not> list_ex is_send t"
  by (simp add: deploy_catch_def console_error_def Let_def)

section \<open>No record on failure\<close>

text \<open>
  C4.  When the \<^verbatim>\<open>try\<close> block of \<^verbatim>\<open>deploy\<close> ends with an error that does not come
  from the final persistence step (the two record writes and the creation of the public
  directory between them), the function returns \<^verbatim>\<open>{ success: false, error }\<close> with
  the error's message, prints it, and neither the canonical record file nor the public
  copy has changed.  The failures the specification lists (artifact not readable, no RPC
  URL, no private key, no funds, a rejected or reverted transaction, a failed wait) are
  all errors of this kind.
\<close>

theorem deploy_failure_writes_no_record:
  assumes "deploy_try p svc w = (Inl e, w')" and "\<not> persistence_error e"
  shows "fst (deploy p svc w) = DeployFailure (message e)
       \<and> deployment_files (snd (deploy p svc w)) = deployment_files w
       \<and> public_deployment_files (snd (deploy p svc w)) = public_deployment_files w
       \<and> (\<exists>t. trace (snd (deploy p svc w))
                = trace w' @ ConsoleError (''Deployment failed: '' @ message e) # t)
       \<and> \<not> persistence_error (ReadFailed path m)
       \<and> \<not> persistence_error (NoRpcUrl net)
       \<and> \<not> persistence_error NoPrivateKey
       \<and> \<not> persistence_error NoFunds
       \<and> \<not> persistence_error (ClientFailed method m c)"
proof -
  from deploy_try_guarded [of p svc] assms(1)
  have "persistence_error e \<or> same_records w w'"
    unfolding guarded_def by blast
  with assms(2) have "same_records w w'" by simp
  moreover from assms(1) have "deploy p svc w = deploy_catch e w'"
    by (simp add: deploy_def)
  ultimately show ?thesis
    using deploy_catch_trace [of e w']
    by (auto simp add: deploy_catch_sel same_records_def)
qed

lemmas deploy_eval =
  deploy_try_def deploy_funded_def deploy_confirm_def send_transaction_def io_defs mkdir_def readArtifact_def read_file_def
  write_file_def next_fault_def getProvider_def getSigner_def rpc_def client_def emit_def
  target_network_def target_contract_def argv_at_def env_get_def js_or_def
  gasLimit_def bigint_div_def encode_constructor_args_def now_def
  writeDeployment_def writePublicDeployment_def
  example_world_def example_process_def example_services_def

lemma deploy_try_missing_contract:
  "fst (deploy_try missing_contract_process (example_services 1 ''0x6080'') example_world)
   = Inl (ReadFailed ''artifacts/Missing.json''
            (enoent ''open'' ''artifacts/Missing.json''))"
  by (simp add: deploy_eval missing_contract_process_def artifact_path_def)

lemma deploy_try_ethereum:
  "fst (deploy_try ethereum_process (example_services 1 ''0x6080'') example_world)
   = Inl (NoRpcUrl ''ethereum'')"
  by (simp add: deploy_eval ethereum_process_def)

lemma deploy_try_keyless:
  "fst (deploy_try keyless_process (example_services 1 ''0x6080'') example_world)
   = Inl NoPrivateKey"
  by (simp add: deploy_eval keyless_process_def)

lemma deploy_try_reverting:
  "fst (deploy_try example_process reverting_services example_world)
   = Inl (ClientFailed ''waitForDeployment'' ''transaction execution reverted''
            ''CALL_EXCEPTION'')"
  by (simp add: deploy_eval reverting_services_def)

theorem deploy_failure_writes_no_record_witness:
  "fst (deploy missing_contract_process (example_services 1 ''0x6080'') example_world)
     = DeployFailure
         (''ENOENT: no such file or directory, open '' @ [CHR 0x27]
            @ ''artifacts/Missing.json'' @ [CHR 0x27])
   \<and> deployment_files
        (snd (deploy missing_contract_process (example_services 1 ''0x6080'') example_world))
     = deployment_files example_world
   \<and> fst (deploy ethereum_process (example_services 1 ''0x6080'') example_world)
     = DeployFailure ''No RPC URL configured for network: ethereum''
   \<and> fst (deploy keyless_process (example_services 1 ''0x6080'') example_world)
     = DeployFailure ''No private key found in environment variables''
   \<and> fst (deploy example_process reverting_services example_world)
     = DeployFailure ''transaction execution reverted''
   \<and> deployment_files (snd (deploy example_process reverting_services example_world))
     = deployment_files example_world
   \<and> public_deployment_files (snd (deploy example_process reverting_services example_world))
     = public_deployment_files example_world"
proof -
  obtain w1 where "deploy_try missing_contract_process (example_services 1 ''0x6080'')
      example_world
      = (Inl (ReadFailed ''artifacts/Missing.json''
                (enoent ''open'' ''artifacts/Missing.json'')), w1)"
    using deploy_try_missing_contract
    by (cases "deploy_try missing_contract_process (example_services 1 ''0x6080'')
          example_world") simp
  from deploy_failure_writes_no_record [OF this]
  have a: "fst (deploy missing_contract_process (example_services 1 ''0x6080'') example_world)
       = DeployFailure
         (''ENOENT: no such file or directory, open '' @ [CHR 0x27]
            @ ''artifacts/Missing.json'' @ [CHR 0x27])
     \<and> deployment_files
        (snd (deploy missing_contract_process (example_services 1 ''0x6080'') example_world))
       = deployment_files example_world"
    by (simp add: enoent_def)
  obtain w2 where "deploy_try ethereum_process (example_services 1 ''0x6080'') example_world
      = (Inl (NoRpcUrl ''ethereum''), w2)"
    using deploy_try_ethereum
    by (cases "deploy_try ethereum_process (example_services 1 ''0x6080'') example_world") simp
  from deploy_failure_writes_no_record [OF this]
  have b: "fst (deploy ethereum_process (example_services 1 ''0x6080'') example_world)
     = DeployFailure ''No RPC URL configured for network: ethereum''"
    by simp
  obtain w3 where "deploy_try keyless_process (example_services 1 ''0x6080'') example_world
      = (Inl NoPrivateKey, w3)"
    using deploy_try_keyless
    by (cases "deploy_try keyless_process (example_services 1 ''0x6080'') example_world") simp
  from deploy_failure_writes_no_record [OF this]
  have c: "fst (deploy keyless_process (example_services 1 ''0x6080'') example_world)
     = DeployFailure ''No private key found in environment variables''"
    by simp
  obtain w4 where "deploy_try example_process reverting_services example_world
      = (Inl (ClientFailed ''waitForDeployment'' ''transaction execution reverted''
            ''CALL_EXCEPTION''), w4)"
    using deploy_try_reverting
    by (cases "deploy_try example_process reverting_services example_world") simp
  from deploy_failure_writes_no_record [OF this]
  have d: "fst (deploy example_process reverting_services example_world)
       = DeployFailure ''transaction execution reverted''
     \<and> deployment_files (snd (deploy example_process reverting_services example_world))
       = deployment_files example_world
     \<and> public_deployment_files (snd (deploy example_process reverting_services example_world))
       = public_deployment_files example_world"
    by simp
  from a b c d show ?thesis by simp
qed

lemma deploy_try_guarded_send:
  "guarded nothing_sent (\<lambda>e. e \<noteq> NoFunds) (deploy_try p svc)"
  unfolding deploy_try_def readArtifact_def
  by (intro guarded_bind guarded_if guarded_throw
      guarded_fails_only [OF deploy_funded_never_NoFunds] preserves_mkdir(2)
      preserves_read_file(2) preserves_getProvider(2) preserves_getSigner(2) preserves_rpc(2)
      nothing_sent_preorder)

lemma deploy_try_balance:
  assumes "mkdir deployments_dir w = (Inr u, w1)"
    and "readArtifact (target_contract p) w1 = (Inr artifact, w2)"
    and "getProvider p (target_network p) w2 = (Inr provider, w3)"
    and "getSigner p svc w3 = (Inr address, w4)"
    and "getBalance svc provider address = Inr balance"
  shows "deploy_try p svc w =
         (if balance = 0 then (Inl NoFunds, emit (Rpc ''getBalance'' provider) w4)
          else deploy_funded p svc artifact provider address
                 (emit (Rpc ''getBalance'' provider) w4))"
  using assms by (simp add: deploy_try_def io_bind_def io_throw_def rpc_def)

section \<open>The balance check\<close>

text \<open>
  C5.  Whenever a deployment gets as far as querying the signer's balance, a balance of
  exactly zero ends the \<^verbatim>\<open>try\<close> block with the no-funds error right after the
  \<^verbatim>\<open>getBalance\<close> call: \<^verbatim>\<open>deploy\<close> returns that failure, no transaction has been
  sent to the endpoint and no record file has changed.  Any other balance passes the
  check: the run continues with the statements after it, and whatever happens there, the
  no-funds error is not thrown.
\<close>

theorem zero_balance_fails_before_send:
  assumes "mkdir deployments_dir w = (Inr u, w1)"
    and "readArtifact (target_contract p) w1 = (Inr artifact, w2)"
    and "getProvider p (target_network p) w2 = (Inr provider, w3)"
    and "getSigner p svc w3 = (Inr address, w4)"
    and "getBalance svc provider address = Inr balance"
  shows "(balance = 0 \<longrightarrow>
            deploy_try p svc w = (Inl NoFunds, emit (Rpc ''getBalance'' provider) w4)
          \<and> fst (deploy p svc w)
              = DeployFailure ''Deployer has no funds. Please fund your account first.''
          \<and> \<not> list_ex is_send (new_events w (snd (deploy p svc w)))
          \<and> deployment_files (snd (deploy p svc w)) = deployment_files w
          \<and> public_deployment_files (snd (deploy p svc w)) = public_deployment_files w)
       \<and> (balance \<noteq> 0 \<longrightarrow>
            deploy_try p svc w
              = deploy_funded p svc artifact provider address
                  (emit (Rpc ''getBalance'' provider) w4)
          \<and> fst (deploy_try p svc w) \<noteq> Inl NoFunds)"
proof (intro conjI impI)
  assume z: "balance = 0"
  with deploy_try_balance [OF assms]
  show r: "deploy_try p svc w = (Inl NoFunds, emit (Rpc ''getBalance'' provider) w4)"
    by simp
  then have d: "deploy p svc w = deploy_catch NoFunds (emit (Rpc ''getBalance'' provider) w4)"
    by (simp add: deploy_def)
  then show "fst (deploy p svc w)
      = DeployFailure ''Deployer has no funds. Please fund your account first.''"
    by (simp add: deploy_catch_sel)
  from deploy_try_guarded_send [of p svc] r
  have "NoFunds \<noteq> NoFunds \<or> nothing_sent w (emit (Rpc ''getBalance'' provider) w4)"
    unfolding guarded_def by blast
  then have "nothing_sent w (emit (Rpc ''getBalance'' provider) w4)" by simp
  then obtain t where t: "trace (emit (Rpc ''getBalance'' provider) w4) = trace w @ t"
    and n: "\<not> list_ex is_send t"
    unfolding nothing_sent_def by blast
  from deploy_catch_trace [of NoFunds "emit (Rpc ''getBalance'' provider) w4"]
  obtain t' where "trace (snd (deploy p svc w))
      = trace (emit (Rpc ''getBalance'' provider) w4)
        @ ConsoleError (''Deployment failed: '' @ message NoFunds) # t'"
    and n': "\<not> list_ex is_send t'"
    unfolding d by blast
  with t have "trace (snd (deploy p svc w))
      = trace w @ (t @ ConsoleError (''Deployment failed: '' @ message NoFunds) # t')"
    by simp
  then have "new_events w (snd (deploy p svc w))
      = t @ ConsoleError (''Deployment failed: '' @ message NoFunds) # t'"
    by (rule new_events_append)
  with n n' show "\<not> list_ex is_send (new_events w (snd (deploy p svc w)))" by simp
  from deploy_try_guarded [of p svc] r
  have "persistence_error NoFunds \<or> same_records w (emit (Rpc ''getBalance'' provider) w4)"
    unfolding guarded_def by blast
  then have "same_records w (emit (Rpc ''getBalance'' provider) w4)" by simp
  then show "deployment_files (snd (deploy p svc w)) = deployment_files w"
    and "public_deployment_files (snd (deploy p svc w)) = public_deployment_files w"
    unfolding d by (simp_all add: deploy_catch_sel same_records_def)
next
  assume nz: "balance \<noteq> 0"
  with deploy_try_balance [OF assms]
  show r: "deploy_try p svc w
      = deploy_funded p svc artifact provider address (emit (Rpc ''getBalance'' provider) w4)"
    by simp
  show "fst (deploy_try p svc w) \<noteq> Inl NoFunds"
  proof
    assume "fst (deploy_try p svc w) = Inl NoFunds"
    with r obtain w' where "deploy_funded p svc artifact provider address
        (emit (Rpc ''getBalance'' provider) w4) = (Inl NoFunds, w')"
      by (cases "deploy_funded p svc artifact provider address
            (emit (Rpc ''getBalance'' provider) w4)") simp
    with deploy_funded_never_NoFunds [of p svc artifact provider address] show False
      by (auto simp add: fails_only_def)
  qed
qed

lemma example_deploy_steps:
  "mkdir deployments_dir example_world = (Inr (), emit (Mkdir deployments_dir) example_world)"
  "readArtifact (target_contract example_process) (emit (Mkdir deployments_dir) example_world)
   = (Inr example_artifact,
      emit (ReadFile (artifact_path ''SimpleStorage''))
        (emit (Mkdir deployments_dir) example_world))"
  "getProvider example_process (target_network example_process)
     (emit (ReadFile (artifact_path ''SimpleStorage''))
        (emit (Mkdir deployments_dir) example_world))
   = (Inr ''https://data-seed-prebsc-1-s1.binance.org:8545/'',
      emit (ReadFile (artifact_path ''SimpleStorage''))
        (emit (Mkdir deployments_dir) example_world))"
  "getSigner example_process (example_services funds live)
     (emit (ReadFile (artifact_path ''SimpleStorage''))
        (emit (Mkdir deployments_dir) example_world))
   = (Inr ''0xF00D'',
      emit (ReadFile (artifact_path ''SimpleStorage''))
        (emit (Mkdir deployments_dir) example_world))"
  "getBalance (example_services funds live)
     ''https://data-seed-prebsc-1-s1.binance.org:8545/'' ''0xF00D'' = Inr funds"
  by (simp_all add: mkdir_def readArtifact_def read_file_def next_fault_def getProvider_def
      getSigner_def client_def io_defs example_target example_world_sel
      example_services_def env_get_def js_or_def Let_def)
     (simp_all add: example_process_def)

theorem zero_balance_fails_before_send_witness:
  "fst (deploy example_process (example_services 0 ''0x6080'') example_world)
     = DeployFailure ''Deployer has no funds. Please fund your account first.''
   \<and> \<not> list_ex is_send
        (new_events example_world
          (snd (deploy example_process (example_services 0 ''0x6080'') example_world)))
   \<and> deployment_files
        (snd (deploy example_process (example_services 0 ''0x6080'') example_world))
     = deployment_files example_world
   \<and> fst (deploy_try example_process (example_services 1 ''0x6080'') example_world)
     \<noteq> Inl NoFunds"
proof -
  from zero_balance_fails_before_send [OF example_deploy_steps, of 0 "''0x6080''"]
  have "fst (deploy example_process (example_services 0 ''0x6080'') example_world)
       = DeployFailure ''Deployer has no funds. Please fund your account first.''
     \<and> \<not> list_ex is_send
          (new_events example_world
            (snd (deploy example_process (example_services 0 ''0x6080'') example_world)))
     \<and> deployment_files
          (snd (deploy example_process (example_services 0 ''0x6080'') example_world))
       = deployment_files example_world"
    by simp
  moreover
  have "(1::int) \<noteq> 0" by simp
  with zero_balance_fails_before_send [OF example_deploy_steps, of 1 "''0x6080''"]
  have "fst (deploy_try example_process (example_services 1 ''0x6080'') example_world)
      \<noteq> Inl NoFunds"
    by blast
  ultimately show ?thesis by blast
qed

text \<open>
  The sample deployment with funds goes through: the record has no constructor types and
  an empty argument encoding, and is in both files.
\<close>

lemma example_deploy_success:
  "fst (deploy example_process (example_services 1 ''0x6080'') example_world)
     = DeploySuccess ''0xC0FFEE'' ''0xDEC0DE''
   \<and> map_option constructorTypes
        (deployment_files
          (snd (deploy example_process (example_services 1 ''0x6080'') example_world))
          ''bsc-testnet'') = Some []
   \<and> map_option encodedConstructorArgs
        (public_deployment_files
          (snd (deploy example_process (example_services 1 ''0x6080'') example_world))
          ''bsc-testnet'') = Some []
   \<and> list_ex is_send
        (new_events example_world
          (snd (deploy example_process (example_services 1 ''0x6080'') example_world)))"
  by (simp add: deploy_def deploy_eval new_events_def constructor_types_def
      example_artifact_def)

section \<open>The gas limit of the deployment transaction\<close>






section \<open>The compile script always resolves\<close>

lemma compile_try_True:
  assumes "compile_try cc w = (Inr success, w')"
  shows "success"
  using assms
  by (auto simp add: compile_try_def io_bind_def io_return_def split: prod.splits sum.splits)

lemma compile_cases:
  obtains (ok) w' where "compile_try cc w = (Inr True, w')" "compile cc w = (Inr True, w')"
  | (failed) e w' where "compile_try cc w = (Inl e, w')"
      "compile cc w = (Inr False, console_error (''Compilation failed: '' @ message e) w')"
proof (cases "compile_try cc w")
  case (Pair r w')
  show ?thesis
  proof (cases r)
    case (Inl e)
    with Pair have "compile cc w
        = (Inr False, console_error (''Compilation failed: '' @ message e) w')"
      by (simp add: compile_def io_defs)
    with Pair Inl show ?thesis by (intro failed) simp_all
  next
    case (Inr success)
    with Pair compile_try_True [of cc w success w'] have "compile_try cc w = (Inr True, w')"
      by simp
    moreover from this have "compile cc w = (Inr True, w')"
      by (simp add: compile_def io_defs)
    ultimately show ?thesis by (rule ok)
  qed
qed

text \<open>
  C9, as the code has it.  \<^verbatim>\<open>compile\<close> never rejects: it returns \<open>True\<close> exactly when
  no step of the \<^verbatim>\<open>try\<close> block failed, and \<open>False\<close> exactly when one did, after
  printing \<^verbatim>\<open>Compilation failed: <message>\<close>.  So the promise of the entry point
  always resolves and the process ends with status 0, after a failure as after a success.
\<close>

theorem compile_failure_returns_false_and_exits_0:
  "(fst (compile cc w) = Inr True \<or> fst (compile cc w) = Inr False)
   \<and> fst (compile_main cc w) = Resolved
   \<and> exit_status (fst (compile_main cc w)) = 0
   \<and> (fst (compile cc w) = Inr True \<longleftrightarrow> fst (compile_try cc w) = Inr True)
   \<and> (\<forall>e w'. compile_try cc w = (Inl e, w') \<longrightarrow>
         compile cc w
           = (Inr False, console_error (''Compilation failed: '' @ message e) w'))"
proof (cases rule: compile_cases [of cc w])
  case (ok w')
  then show ?thesis by (simp add: compile_main_def)
next
  case (failed e w')
  then show ?thesis by (simp add: compile_main_def)
qed

lemmas compile_eval =
  compile_try_def compile_file_def io_defs mkdir_def readdir_def readSource_def read_file_def
  write_file_def next_fault_def getCompilerVersion_def client_def emit_def now_def
  check_errors_def lookup_contract_def writeArtifact_def writeSettings_def
  suffix_to_prefix basename_sol_def
  match_version_def match_semver_def match_seq_def match_run_def match_lit_def
  is_digit_def is_hex_def

lemma failing_compile_try:
  "fst (compile_try failing_compiler example_world) = Inl CompilationErrors"
  by (simp add: compile_eval failing_compiler_def example_compiler_def example_world_def)

text \<open>
  Compiling the sample source gives the artifact and the settings of the sample project:
  version with commit hash, pragma and license read from the source text.
\<close>

lemma example_compile_try:
  "fst (compile_try example_compiler example_world) = Inr True
   \<and> settings_file (snd (compile_try example_compiler example_world)) = Some example_settings
   \<and> artifact_files (snd (compile_try example_compiler example_world)) ''SimpleStorage''
     = Some example_artifact"
  by (simp add: compile_eval example_compiler_def example_world_def example_source_def
      extract_license_def extract_pragma_def trim_def js_space_def line_terminator_def
      example_settings_def example_artifact_def artifact_path_def)

theorem compile_failure_returns_false_and_exits_0_witness:
  "fst (compile failing_compiler example_world) = Inr False
   \<and> exit_status (fst (compile_main failing_compiler example_world)) = 0
   \<and> fst (compile example_compiler example_world) = Inr True
   \<and> exit_status (fst (compile_main example_compiler example_world)) = 0"
proof -
  obtain w' where "compile_try failing_compiler example_world = (Inl CompilationErrors, w')"
    using failing_compile_try by (cases "compile_try failing_compiler example_world") simp
  with compile_failure_returns_false_and_exits_0 [of failing_compiler example_world]
  have "fst (compile failing_compiler example_world) = Inr False
      \<and> exit_status (fst (compile_main failing_compiler example_world)) = 0"
    by simp
  moreover
  from compile_failure_returns_false_and_exits_0 [of example_compiler example_world]
    example_compile_try
  have "fst (compile example_compiler example_world) = Inr True
      \<and> exit_status (fst (compile_main example_compiler example_world)) = 0"
    by simp
  ultimately show ?thesis by simp
qed

text \<open>
  C9 as the specification words it (an internal failure ends the process with a non-zero
  status through an unhandled rejection) does not hold: when the compiler reports an
  error, the \<^verbatim>\<open>try\<close> block throws, \<^verbatim>\<open>compile\<close> returns \<open>False\<close>, the promise
  resolves and the exit status is 0.
\<close>

theorem compile_unhandled_rejection_counterexample:
  "fst (compile_try failing_compiler example_world) = Inl CompilationErrors
   \<and> fst (compile failing_compiler example_world) = Inr False
   \<and> fst (compile_main failing_compiler example_world) = Resolved
   \<and> exit_status (fst (compile_main failing_compiler example_world)) = 0"
proof -
  obtain w' where r: "compile_try failing_compiler example_world = (Inl CompilationErrors, w')"
    using failing_compile_try by (cases "compile_try failing_compiler example_world") simp
  then have "compile failing_compiler example_world
      = (Inr False, console_error (''Compilation failed: '' @ message CompilationErrors) w')"
    by (simp add: compile_def io_defs)
  with r show ?thesis by (simp add: compile_main_def)
qed

section \<open>The bytecode check on the output of the compile script\<close>

lemma answered_run:
  "fs_faults answered_world = []"
  "settings_file answered_world = Some example_settings"
  "deployment_files answered_world (target_network example_process) = Some example_deployment"
  "getCode (example_services 1 ''0xff80'')
     (js_to_string (getRpcUrl example_process (target_network example_process)))
     (contractAddress example_deployment) = Inr ''0xff80''"
  "str_includes ''0xff80'' (str_slice 2 (deployedBytecode example_settings))"
  "encode_args (example_services 1 ''0xff80'') example_deployment = io_return []"
  "contract_sources answered_world (set_contractName example_settings @ ''.sol'')
   = Some example_source"
  by (simp_all add: answered_world_def example_world_def example_settings_def
      str_slice_def example_target example_services_sel example_encode_args)

text \<open>
  C3.  The check is meant to let a submission through only when the live code contains
  the compiled \<^verbatim>\<open>deployedBytecode\<close> without its \<^verbatim>\<open>0x\<close> prefix, and
  \<^verbatim>\<open>slice(2)\<close> is how the scripts remove such a prefix.  The bytecode the compile
  script writes to the settings file has no prefix, so \<^verbatim>\<open>slice(2)\<close> removes its
  first byte instead and the check compares the rest only.  For the sample project the
  settings hold \<^verbatim>\<open>6080\<close>; with the live code \<^verbatim>\<open>0xff80\<close>, which does not contain
  the compiled bytecode, the check passes, the submission is posted to the explorer and
  the run ends as verified.
\<close>

theorem bytecode_check_drops_first_byte:
  "settings_file (snd (compile_try example_compiler example_world)) = Some example_settings
   \<and> settings_file answered_world = Some example_settings
   \<and> deployedBytecode example_settings = ''6080''
   \<and> str_slice 2 (deployedBytecode example_settings) = ''80''
   \<and> \<not> str_includes ''0xff80'' (deployedBytecode example_settings)
   \<and> list_ex is_submission
        (new_events answered_world
          (snd (verifyContract example_process (example_services 1 ''0xff80'') answered_world)))
   \<and> fst (verifyContract example_process (example_services 1 ''0xff80'') answered_world)
     = Resolved"
proof -
  have "\<not> str_includes ''0xff80'' (deployedBytecode example_settings)"
    "str_slice 2 (deployedBytecode example_settings) = ''80''"
    "deployedBytecode example_settings = ''6080''"
    by (simp_all add: example_settings_def str_slice_def)
  moreover
  from verifyContract_healthy_trace [OF answered_run]
  have "list_ex is_submission
      (new_events answered_world
        (snd (verifyContract example_process (example_services 1 ''0xff80'') answered_world)))"
    by auto
  moreover
  have "verifysourcecode (example_services 1 ''0xff80'')
          (js_to_string (getApiUrl (target_network example_process)))
          (verificationPayload example_process (target_network example_process)
             example_deployment example_settings example_source [])
        = Inr \<lparr>resp_status = ''1'', resp_message = ''OK'', resp_result = ''abc123guid''\<rparr>"
    by (simp add: example_services_sel)
  from verifyContract_healthy_verified [OF answered_run this, of "[]" "[]"]
  have "fst (verifyContract example_process (example_services 1 ''0xff80'') answered_world)
      = Resolved"
    by (simp add: answered_world_def)
  ultimately show ?thesis
    using example_compile_try by (simp add: answered_run)
qed

end
